theory Spec2Isabelle
  imports Main "HOL-Library.AList"
begin

section \<open>Python values used by the converter\<close>

text \<open>
  The converter reads a CSV table with \<open>csv.reader\<close>: a header row and data rows, every
  cell a Python \<open>str\<close>. Cells are modelled as \<open>string\<close>: a \<open>char\<close> is a code point from
  U+0000 to U+00FF, and the character classes below are those of Python on these code
  points. Text with other code points is outside the model.

  Exceptions are values: a function that can raise returns \<open>exn + 'a\<close>.
\<close>

datatype exn = ValueError | TypeError | IndexError | OverflowError

subsection \<open>Strings\<close>

definition is_digit :: "char \<Rightarrow> bool" where
  "is_digit c = (c \<in> set ''0123456789'')"

text \<open>
  White space of \<open>str.strip()\<close>: codes 9 to 13, 28 to 31, the blank, U+0085 and U+00A0.
\<close>

definition is_space :: "char \<Rightarrow> bool" where
  "is_space c = (of_char c \<in> {9::nat, 10, 11, 12, 13, 28, 29, 30, 31, 32, 133, 160})"

definition strip_with :: "(char \<Rightarrow> bool) \<Rightarrow> string \<Rightarrow> string" where
  "strip_with p s = rev (dropWhile p (rev (dropWhile p s)))"

definition str_strip :: "string \<Rightarrow> string" where
  "str_strip s = strip_with is_space s"

text \<open>
  \<open>str.lower()\<close>: the letters A to Z and U+00C0 to U+00DE (but not the sign U+00D7) move up
  by 32; every other character stays.
\<close>

definition upper_letters :: string where
  "upper_letters =
     ''ABCDEFGHIJKLMNOPQRSTUVWXYZ'' @
       [CHR 0xC0, CHR 0xC1, CHR 0xC2, CHR 0xC3, CHR 0xC4, CHR 0xC5, CHR 0xC6, CHR 0xC7,
        CHR 0xC8, CHR 0xC9, CHR 0xCA, CHR 0xCB, CHR 0xCC, CHR 0xCD, CHR 0xCE, CHR 0xCF,
        CHR 0xD0, CHR 0xD1, CHR 0xD2, CHR 0xD3, CHR 0xD4, CHR 0xD5, CHR 0xD6, CHR 0xD8,
        CHR 0xD9, CHR 0xDA, CHR 0xDB, CHR 0xDC, CHR 0xDD, CHR 0xDE]"

definition lower_letters :: string where
  "lower_letters =
     ''abcdefghijklmnopqrstuvwxyz'' @
       [CHR 0xE0, CHR 0xE1, CHR 0xE2, CHR 0xE3, CHR 0xE4, CHR 0xE5, CHR 0xE6, CHR 0xE7,
        CHR 0xE8, CHR 0xE9, CHR 0xEA, CHR 0xEB, CHR 0xEC, CHR 0xED, CHR 0xEE, CHR 0xEF,
        CHR 0xF0, CHR 0xF1, CHR 0xF2, CHR 0xF3, CHR 0xF4, CHR 0xF5, CHR 0xF6, CHR 0xF8,
        CHR 0xF9, CHR 0xFA, CHR 0xFB, CHR 0xFC, CHR 0xFD, CHR 0xFE]"

definition lower_char :: "char \<Rightarrow> char" where
  "lower_char c = (case map_of (zip upper_letters lower_letters) c of Some d \<Rightarrow> d | None \<Rightarrow> c)"

definition str_lower :: "string \<Rightarrow> string" where
  "str_lower s = map lower_char s"

text \<open>
  \<open>str.upper()\<close>, as the list of the code points of its result, which a \<open>char\<close> cannot
  always hold: the letters a to z and U+00E0 to U+00FE (but not the sign U+00F7) move down
  by 32, U+00DF becomes the two letters \<open>SS\<close>, U+00B5 becomes U+039C and U+00FF becomes
  U+0178; every other character stays.
\<close>

definition upper_points :: "char \<Rightarrow> nat list" where
  "upper_points c =
     (let n = of_char c
      in if (97 \<le> n \<and> n \<le> 122) \<or> (224 \<le> n \<and> n \<le> 254 \<and> n \<noteq> 247) then [n - 32]
         else if n = 223 then [83, 83]
         else if n = 181 then [924]
         else if n = 255 then [376]
         else [n])"

definition str_upper :: "string \<Rightarrow> nat list" where
  "str_upper s = concat (map upper_points s)"

text \<open>The code points of a string, to compare with an upper-cased one.\<close>

definition code_points :: "string \<Rightarrow> nat list" where
  "code_points s = map of_char s"

text \<open>\<open>s.split(sep)\<close> for a one-character separator: never the empty list.\<close>

fun str_split :: "char \<Rightarrow> string \<Rightarrow> string list" where
  "str_split sep [] = [[]]"
| "str_split sep (c # cs) =
     (if c = sep then [] # str_split sep cs
      else (case str_split sep cs of
              [] \<Rightarrow> [[c]]
            | w # ws \<Rightarrow> (c # w) # ws))"

text \<open>\<open>s.replace(a, b)\<close> for one-character \<open>a\<close> and \<open>b\<close>.\<close>

definition str_replace :: "char \<Rightarrow> char \<Rightarrow> string \<Rightarrow> string" where
  "str_replace a b s = map (\<lambda>c. if c = a then b else c) s"

definition startswith :: "string \<Rightarrow> char \<Rightarrow> bool" where
  "startswith s c = (case s of [] \<Rightarrow> False | d # _ \<Rightarrow> d = c)"

text \<open>\<open>re.sub(r'\D', '', s)\<close>: the digits of \<open>s\<close>, in order.\<close>

definition digits_only :: "string \<Rightarrow> string" where
  "digits_only s = filter is_digit s"

text \<open>\<open>str(n)\<close> for an integer, as an f-string renders it.\<close>

fun nat_digits :: "nat \<Rightarrow> string" where
  "nat_digits n =
     (if n < 10 then [''0123456789'' ! n]
      else nat_digits (n div 10) @ [''0123456789'' ! (n mod 10)])"

definition str_of_int :: "int \<Rightarrow> string" where
  "str_of_int i = (if i < 0 then CHR ''-'' # nat_digits (nat (- i)) else nat_digits (nat i))"

subsection \<open>Floats\<close>

text \<open>
  A Python \<open>float\<close> is an IEEE binary64 value: \<open>Finite neg m e\<close> stands for
  \<open>\<plusminus> m * 2 ^ e\<close> (with a sign also on zero), beside the infinities and NaN.
\<close>

datatype pyfloat = Finite bool nat int | Infinity bool | NaN

fun bit_length :: "nat \<Rightarrow> nat" where
  "bit_length n = (if n = 0 then 0 else Suc (bit_length (n div 2)))"

text \<open>
  The binary64 value nearest to the positive rational \<open>n / d\<close>, ties to even: 53 bits of
  mantissa, exponent at least \<open>-1074\<close>, infinite from \<open>2 ^ 1024\<close> on.
\<close>

definition round_double :: "bool \<Rightarrow> nat \<Rightarrow> nat \<Rightarrow> pyfloat" where
  "round_double neg n d =
     (if n = 0 then Finite neg 0 0
      else
        let k = int (bit_length n) - int (bit_length d);
            lg = (if d * 2 ^ nat k \<le> n * 2 ^ nat (- k) then k else k - 1);
            e = max (lg - 52) (- 1074);
            num = n * 2 ^ nat (- e);
            den = d * 2 ^ nat e;
            q = num div den;
            r = num mod den;
            m = (if den < 2 * r \<or> (2 * r = den \<and> odd q) then q + 1 else q)
        in if 2 ^ 1024 \<le> m * 2 ^ nat e then Infinity neg else Finite neg m e)"

text \<open>The value \<open>m * 10 ^ x\<close> of a decimal literal, rounded.\<close>

definition decimal_to_double :: "bool \<Rightarrow> nat \<Rightarrow> int \<Rightarrow> pyfloat" where
  "decimal_to_double neg m x =
     (if 0 \<le> x then round_double neg (m * 10 ^ nat x) 1
      else round_double neg m (10 ^ nat (- x)))"

text \<open>
  \<open>float(str)\<close> first makes the string ASCII. A string of ASCII characters stays as it
  is. In any other string a character below 127 stays, a white space character from 127 on
  (U+0085, U+00A0) becomes a blank, and at the first other character from 127 on the string
  ends with a question mark (none of these code points is a decimal digit).
\<close>

fun ascii_spaces :: "string \<Rightarrow> string" where
  "ascii_spaces [] = []"
| "ascii_spaces (c # cs) =
     (if of_char c < (127::nat) then c # ascii_spaces cs
      else if is_space c then CHR '' '' # ascii_spaces cs
      else ''?'')"

definition to_ascii :: "string \<Rightarrow> string" where
  "to_ascii s = (if list_all (\<lambda>c. of_char c < (128::nat)) s then s else ascii_spaces s)"

text \<open>
  Then the grammar: white space around the literal is dropped (blank and codes 9 to 13),
  then an optional sign, then \<open>inf\<close>, \<open>infinity\<close> or \<open>nan\<close> in any case of the ASCII
  letters, or a decimal number: digits with single underscores between them, an optional
  point, an optional exponent.
\<close>

definition is_float_space :: "char \<Rightarrow> bool" where
  "is_float_space c = (of_char c \<in> {9::nat, 10, 11, 12, 13, 32})"

definition ascii_lower_char :: "char \<Rightarrow> char" where
  "ascii_lower_char c =
     (case map_of (zip ''ABCDEFGHIJKLMNOPQRSTUVWXYZ'' ''abcdefghijklmnopqrstuvwxyz'') c of
        Some d \<Rightarrow> d | None \<Rightarrow> c)"

fun no_double_underscore :: "string \<Rightarrow> bool" where
  "no_double_underscore (a # b # cs) =
     (\<not> (a = CHR ''_'' \<and> b = CHR ''_'') \<and> no_double_underscore (b # cs))"
| "no_double_underscore cs = True"

definition is_digitpart :: "string \<Rightarrow> bool" where
  "is_digitpart s =
     (s \<noteq> [] \<and> is_digit (hd s) \<and> is_digit (last s)
      \<and> list_all (\<lambda>c. is_digit c \<or> c = CHR ''_'') s \<and> no_double_underscore s)"

definition digit_value :: "char \<Rightarrow> nat" where
  "digit_value c = of_char c - 48"

definition digits_value :: "string \<Rightarrow> nat" where
  "digits_value s = foldl (\<lambda>acc c. 10 * acc + digit_value c) 0 (filter is_digit s)"

definition split_sign :: "string \<Rightarrow> bool \<times> string" where
  "split_sign s =
     (case s of
        [] \<Rightarrow> (False, [])
      | c # cs \<Rightarrow>
          if c = CHR ''-'' then (True, cs)
          else if c = CHR ''+'' then (False, cs)
          else (False, s))"

definition parse_exponent :: "string \<Rightarrow> int option" where
  "parse_exponent s =
     (let (neg, ds) = split_sign s
      in if is_digitpart ds
         then Some (if neg then - int (digits_value ds) else int (digits_value ds))
         else None)"

definition parse_number :: "bool \<Rightarrow> string \<Rightarrow> pyfloat option" where
  "parse_number neg s =
     (let is_e = (\<lambda>c. c = CHR ''e'' \<or> c = CHR ''E'');
          mant = takeWhile (\<lambda>c. \<not> is_e c) s;
          rest = dropWhile (\<lambda>c. \<not> is_e c) s;
          ip = takeWhile (\<lambda>c. c \<noteq> CHR ''.'') mant;
          fp = dropWhile (\<lambda>c. c \<noteq> CHR ''.'') mant;
          frac = tl fp;
          mant_ok =
            (if fp = [] then is_digitpart ip
             else (ip = [] \<or> is_digitpart ip) \<and> (frac = [] \<or> is_digitpart frac)
                  \<and> \<not> (ip = [] \<and> frac = []));
          ex = (if rest = [] then Some 0 else parse_exponent (tl rest))
      in if mant_ok
         then (case ex of
                 None \<Rightarrow> None
               | Some x \<Rightarrow>
                   Some (decimal_to_double neg (digits_value (ip @ frac))
                           (x - int (length (filter is_digit frac)))))
         else None)"

definition float_of_string :: "string \<Rightarrow> exn + pyfloat" where
  "float_of_string s =
     (let (neg, body) = split_sign (strip_with is_float_space (to_ascii s));
          word = map ascii_lower_char body
      in if word = ''inf'' \<or> word = ''infinity'' then Inr (Infinity neg)
         else if word = ''nan'' then Inr NaN
         else (case parse_number neg body of
                 None \<Rightarrow> Inl ValueError
               | Some x \<Rightarrow> Inr x))"

text \<open>\<open>int(x)\<close> for a float: truncation towards zero; it raises on infinities and NaN.\<close>

definition int_of_float :: "pyfloat \<Rightarrow> exn + int" where
  "int_of_float x =
     (case x of
        Finite neg m e \<Rightarrow>
          (let a = (if 0 \<le> e then int m * 2 ^ nat e else int m div 2 ^ nat (- e))
           in Inr (if neg then - a else a))
      | Infinity neg \<Rightarrow> Inl OverflowError
      | NaN \<Rightarrow> Inl ValueError)"

text \<open>\<open>x >= p / q\<close> for a float \<open>x\<close> and the constant \<open>p / q\<close> (\<open>0 < p\<close>, \<open>0 < q\<close>).\<close>

definition float_ge :: "pyfloat \<Rightarrow> nat \<Rightarrow> nat \<Rightarrow> bool" where
  "float_ge x p q =
     (case x of
        Finite neg m e \<Rightarrow>
          \<not> neg \<and> (if 0 \<le> e then p \<le> m * 2 ^ nat e * q else p * 2 ^ nat (- e) \<le> m * q)
      | Infinity neg \<Rightarrow> \<not> neg
      | NaN \<Rightarrow> False)"

text \<open>Truth value of a float: false exactly for the two zeros.\<close>

definition float_truthy :: "pyfloat \<Rightarrow> bool" where
  "float_truthy x = (case x of Finite neg m e \<Rightarrow> m \<noteq> 0 | _ \<Rightarrow> True)"

section \<open>Field normalisers\<close>

text \<open>
  \<open>clean_string\<close> and \<open>clean_number\<close> take an \<open>Optional[str]\<close>; \<open>clean_number\<close> is also
  called on the integer \<open>0\<close> (the default of the photo count).
\<close>

datatype pyval = VNone | VStr string | VInt int

definition clean_string :: "pyval \<Rightarrow> string" where
  "clean_string s =
     (case s of
        VNone \<Rightarrow> ''''
      | VStr t \<Rightarrow> if t = ''None'' \<or> t = '''' then '''' else str_strip t
      | VInt i \<Rightarrow> str_strip (str_of_int i))"

text \<open>\<open>float(n)\<close> on the values \<open>clean_number\<close> can receive.\<close>

definition py_float :: "pyval \<Rightarrow> exn + pyfloat" where
  "py_float n =
     (case n of
        VNone \<Rightarrow> Inl TypeError
      | VStr t \<Rightarrow> float_of_string t
      | VInt i \<Rightarrow>
          (case round_double (i < 0) (nat \<bar>i\<bar>) 1 of
             Infinity neg \<Rightarrow> Inl OverflowError
           | x \<Rightarrow> Inr x))"

text \<open>The handler \<open>except (ValueError, TypeError): return None\<close>; anything else goes on.\<close>

definition except_value_type :: "exn \<Rightarrow> 'a \<Rightarrow> exn + 'a" where
  "except_value_type e d = (if e = ValueError \<or> e = TypeError then Inr d else Inl e)"

definition clean_number :: "pyval \<Rightarrow> exn + int option" where
  "clean_number n =
     (if n = VNone \<or> n = VStr ''None'' \<or> n = VStr '''' then Inr None
      else (case py_float n of
              Inl e \<Rightarrow> except_value_type e None
            | Inr x \<Rightarrow>
                (case int_of_float x of
                   Inl e \<Rightarrow> except_value_type e None
                 | Inr i \<Rightarrow> Inr (Some i))))"

section \<open>Hours parser\<close>

text \<open>
  \<open>json.loads\<close> is the parser of Python's standard library, not code of this
  repository: it is a parameter \<open>loads\<close> of the model, returning the parsed value or
  the exception it raised. A \<open>dict\<close> keeps its keys in insertion order and is an
  association list here; assignment to a key is \<open>AList.update\<close>.
\<close>

datatype json =
    JNull
  | JBool bool
  | JInt int
  | JFloat pyfloat
  | JStr string
  | JArr "json list"
  | JObj "(string \<times> json) list"

type_synonym json_loads = "string \<Rightarrow> exn + json"

text \<open>One round of the loop over \<open>hours_string.split("|")\<close>.\<close>

definition add_day_hour :: "(string \<times> json) list \<Rightarrow> string \<Rightarrow> (string \<times> json) list" where
  "add_day_hour hours_obj day_hour =
     (case str_split CHR '':'' day_hour of
        [day, time] \<Rightarrow> AList.update (str_lower day) (JStr time) hours_obj
      | _ \<Rightarrow> hours_obj)"

definition raw_hours :: "string \<Rightarrow> json" where
  "raw_hours hours_string = JObj [(''raw_hours'', JStr hours_string)]"

definition parse_hours :: "json_loads \<Rightarrow> string \<Rightarrow> json" where
  "parse_hours loads hours_string =
     (if hours_string = '''' \<or> hours_string = ''None'' then JObj []
      else if startswith hours_string CHR ''{'' then
        (case loads (str_replace (CHR 0x27) (CHR 0x22) hours_string) of
           Inl e \<Rightarrow> raw_hours hours_string
         | Inr hours_obj \<Rightarrow> hours_obj)
      else if CHR ''|'' \<in> set hours_string then
        JObj (foldl add_day_hour [] (str_split CHR ''|'' hours_string))
      else raw_hours hours_string)"

section \<open>Row access\<close>

type_synonym row = "string list"
type_synonym header_map = "string \<rightharpoonup> nat"

text \<open>\<open>{header: i for i, header in enumerate(headers)}\<close>: a repeated header keeps its last index.\<close>

definition header_map_of :: "string list \<Rightarrow> header_map" where
  "header_map_of headers = fold (\<lambda>(i, header) m. m(header \<mapsto> i)) (enumerate 0 headers) Map.empty"

text \<open>
  The body of \<open>get_value\<close> without its default: \<open>None\<close> where the source returns
  \<open>default\<close> (no such header, or the row is too short), else the cleaned cell.
\<close>

definition get_cell :: "header_map \<Rightarrow> row \<Rightarrow> string \<Rightarrow> string option" where
  "get_cell hm row key =
     (case hm key of
        None \<Rightarrow> None
      | Some index \<Rightarrow> if length row \<le> index then None else Some (clean_string (VStr (row ! index))))"

definition get_value :: "header_map \<Rightarrow> row \<Rightarrow> string \<Rightarrow> string \<Rightarrow> string" where
  "get_value hm row key dflt = (case get_cell hm row key of None \<Rightarrow> dflt | Some v \<Rightarrow> v)"

definition get_number :: "header_map \<Rightarrow> row \<Rightarrow> string \<Rightarrow> exn + pyfloat option" where
  "get_number hm row key =
     (let val = get_value hm row key ''''
      in if val = '''' then Inr None
         else (case float_of_string val of
                 Inl e \<Rightarrow> except_value_type e None
               | Inr x \<Rightarrow> Inr (Some x)))"

definition get_boolean :: "header_map \<Rightarrow> row \<Rightarrow> string \<Rightarrow> bool" where
  "get_boolean hm row key =
     (let val = get_value hm row key ''''
      in if val \<noteq> '''' then str_upper val = code_points ''TRUE'' else False)"

section \<open>The contractor record\<close>

record location =
  loc_city :: string
  loc_state :: string
  loc_zip :: string
  loc_full_address :: string
  loc_latitude :: "pyfloat option"
  loc_longitude :: "pyfloat option"

record basic_info =
  bi_name :: string
  bi_query :: string
  bi_location :: location

record phone_entry =
  pe_number :: string
  pe_type :: string
  pe_carrier :: string

record phone_info =
  ph_primary :: string
  ph_type :: string
  ph_carrier :: string
  ph_additional_phones :: "phone_entry list"

record person =
  ps_full_name :: string
  ps_first_name :: string
  ps_last_name :: string
  ps_title :: string

record email_entry =
  em_address :: string
  em_status :: string
  em_validation_details :: string
  em_contact :: person

record contact_info =
  ci_phone :: phone_info
  ci_email :: email_entry
  ci_additional_emails :: "email_entry list"

record website_details =
  wd_has_website :: bool
  wd_title :: string
  wd_description :: string
  wd_generator :: string
  wd_has_fb_pixel :: bool
  wd_has_google_tag :: bool

record social_media =
  sm_facebook :: string
  sm_instagram :: string
  sm_linkedin :: string
  sm_twitter :: string
  sm_youtube :: string

record web_presence =
  wp_website :: string
  wp_website_details :: website_details
  wp_social_media :: social_media

record business_details =
  bd_year_founded :: "int option"
  bd_years_in_business :: "int option"
  bd_employee_count :: "int option"
  bd_business_type :: string
  bd_description :: string
  bd_services :: "string list"
  bd_hours :: json

record online_presence =
  op_google_rating :: "pyfloat option"
  op_google_reviews_count :: "int option"
  op_google_reviews_link :: string
  op_google_place_id :: string
  op_business_status :: string
  op_photos_count :: "int option"
  op_photo_url :: string
  op_verified :: bool

record segmentation =
  sg_has_valid_email :: bool
  sg_has_mobile_phone :: bool
  sg_has_website :: bool
  sg_has_facebook :: bool
  sg_has_reviews :: bool
  sg_high_rating :: bool
  sg_established_business :: bool
  sg_is_verified :: bool

record contractor =
  c_id :: string
  c_slug :: string
  c_basic_info :: basic_info
  c_contact_info :: contact_info
  c_web_presence :: web_presence
  c_business_details :: business_details
  c_online_presence :: online_presence
  c_segmentation :: segmentation

record segments =
  with_website :: nat
  with_valid_email :: nat
  with_mobile_phone :: nat
  high_rated :: nat
  established :: nat
  verified :: nat

record meta =
  total_count :: nat
  generated_at :: string
  meta_segments :: segments
  processed_rows :: "int list"

record json_data =
  hvac_contractors :: "contractor list"
  doc_meta :: meta

section \<open>Contact deduplicator\<close>

text \<open>
  The loop over \<open>phone_1\<close>, \<open>phone_2\<close>, \<open>phone_3\<close> carries the list of additional
  phones and the set \<open>processed_phone_numbers\<close>.
\<close>

type_synonym phone_state = "phone_entry list \<times> string set"

definition add_phone :: "header_map \<Rightarrow> row \<Rightarrow> string \<Rightarrow> phone_state \<Rightarrow> phone_state" where
  "add_phone hm row phone_field st =
     (let additional_phones = fst st;
          processed_phone_numbers = snd st;
          phone_number = get_value hm row phone_field ''''
      in if phone_number \<noteq> '''' then
           (let clean_phone = digits_only phone_number
            in if clean_phone \<noteq> '''' \<and> clean_phone \<notin> processed_phone_numbers then
                 (additional_phones @
                    [\<lparr>pe_number = phone_number,
                      pe_type = get_value hm row (phone_field @ ''.phones_enricher.carrier_type'') '''',
                      pe_carrier = get_value hm row (phone_field @ ''.phones_enricher.carrier_name'') ''''\<rparr>],
                  insert clean_phone processed_phone_numbers)
               else st)
         else st)"

definition phone_fields :: "string list" where
  "phone_fields = [''phone_1'', ''phone_2'', ''phone_3'']"

definition collect_phones :: "header_map \<Rightarrow> row \<Rightarrow> string \<Rightarrow> phone_state" where
  "collect_phones hm row phone =
     fold (add_phone hm row) phone_fields
       ([], if phone \<noteq> '''' then {digits_only phone} else {})"

definition contact_of :: "header_map \<Rightarrow> row \<Rightarrow> string \<Rightarrow> person" where
  "contact_of hm row email_field =
     \<lparr>ps_full_name = get_value hm row (email_field @ ''_full_name'') '''',
      ps_first_name = get_value hm row (email_field @ ''_first_name'') '''',
      ps_last_name = get_value hm row (email_field @ ''_last_name'') '''',
      ps_title = get_value hm row (email_field @ ''_title'') ''''\<rparr>"

definition add_email :: "header_map \<Rightarrow> row \<Rightarrow> string \<Rightarrow> email_entry list \<Rightarrow> email_entry list" where
  "add_email hm row email_field additional_emails =
     (let email = get_value hm row email_field ''''
      in if email \<noteq> '''' then
           additional_emails @
             [\<lparr>em_address = email,
               em_status = get_value hm row (email_field @ ''.emails_validator.status'') '''',
               em_validation_details =
                 get_value hm row (email_field @ ''.emails_validator.status_details'') '''',
               em_contact = contact_of hm row email_field\<rparr>]
         else additional_emails)"

definition collect_emails :: "header_map \<Rightarrow> row \<Rightarrow> email_entry list" where
  "collect_emails hm row = fold (add_email hm row) [''email_2'', ''email_3''] []"

section \<open>Record builder\<close>

text \<open>
  \<open>re.sub(r'[^a-z0-9]+', '-', s)\<close>: every maximal run of other characters becomes one
  hyphen. The flag says that the previous character was inside such a run.
\<close>

definition is_slug_char :: "char \<Rightarrow> bool" where
  "is_slug_char c = (c \<in> set ''abcdefghijklmnopqrstuvwxyz0123456789'')"

fun sub_runs :: "bool \<Rightarrow> string \<Rightarrow> string" where
  "sub_runs in_run [] = []"
| "sub_runs in_run (c # cs) =
     (if is_slug_char c then c # sub_runs False cs
      else if in_run then sub_runs True cs
      else CHR ''-'' # sub_runs True cs)"

definition slug_of :: "string \<Rightarrow> string" where
  "slug_of name = strip_with (\<lambda>c. c = CHR ''-'') (sub_runs False (str_lower name))"

definition services_of :: "string \<Rightarrow> string list" where
  "services_of subtypes =
     (if subtypes \<noteq> '''' then
        map str_strip (filter (\<lambda>s. str_strip s \<noteq> '''') (str_split CHR '','' subtypes))
      else [])"

text \<open>Truth value of an optional integer: \<open>None\<close> and \<open>0\<close> are false.\<close>

definition int_truthy :: "int option \<Rightarrow> bool" where
  "int_truthy x = (case x of None \<Rightarrow> False | Some n \<Rightarrow> n \<noteq> 0)"

text \<open>Lines 195 to 197: \<open>if year_founded: years_in_business = current_year - int(year_founded)\<close>.\<close>

definition years_in_business_of :: "int \<Rightarrow> int option \<Rightarrow> int option" where
  "years_in_business_of current_year year_founded =
     (if int_truthy year_founded
      then (case year_founded of None \<Rightarrow> None | Some y \<Rightarrow> Some (current_year - y))
      else None)"

text \<open>\<open>bool(x and x > k)\<close> for an optional integer \<open>x\<close>.\<close>

definition int_above :: "int option \<Rightarrow> int \<Rightarrow> bool" where
  "int_above x k = (int_truthy x \<and> (case x of None \<Rightarrow> False | Some n \<Rightarrow> k < n))"

text \<open>\<open>bool(rating and rating >= 4.5)\<close>.\<close>

definition high_rating_of :: "pyfloat option \<Rightarrow> bool" where
  "high_rating_of rating =
     (case rating of None \<Rightarrow> False | Some r \<Rightarrow> float_truthy r \<and> float_ge r 9 2)"

definition has_mobile_phone_of :: "string \<Rightarrow> phone_entry list \<Rightarrow> bool" where
  "has_mobile_phone_of phone_type additional_phones =
     (str_lower phone_type = ''mobile''
      \<or> list_ex (\<lambda>p. str_lower (pe_type p) = ''mobile'')
           (filter (\<lambda>p. pe_type p \<noteq> '''') additional_phones))"

text \<open>
  The clock: \<open>datetime.datetime.now()\<close> is read once for the current year, once for
  every record without a place id, and once for \<open>generated_at\<close>. \<open>clock k\<close> is the
  \<open>k\<close>-th reading of a run; the number of readings taken so far is threaded through.
\<close>

record reading =
  rd_year :: int
  rd_timestamp :: int
  rd_isoformat :: string

type_synonym clock = "nat \<Rightarrow> reading"

text \<open>Line 214: \<open>place_id or f"id-{row_index}-{int(datetime.datetime.now().timestamp())}"\<close>.\<close>

definition contractor_id :: "clock \<Rightarrow> nat \<Rightarrow> string \<Rightarrow> int \<Rightarrow> string \<times> nat" where
  "contractor_id clk ticks place_id row_index =
     (if place_id \<noteq> '''' then (place_id, ticks)
      else (''id-'' @ str_of_int row_index @ ''-'' @ str_of_int (rd_timestamp (clk ticks)),
            Suc ticks))"

text \<open>Sequencing of calls that can raise: the first exception ends the computation.\<close>

definition bind_exn :: "exn + 'a \<Rightarrow> ('a \<Rightarrow> exn + 'b) \<Rightarrow> exn + 'b" where
  "bind_exn m f = (case m of Inl e \<Rightarrow> Inl e | Inr v \<Rightarrow> f v)"

text \<open>Lines 109 to 295, for a row that passed the checks of lines 76 and 83.\<close>

definition build_contractor ::
  "clock \<Rightarrow> json_loads \<Rightarrow> header_map \<Rightarrow> int \<Rightarrow> nat \<Rightarrow> int \<Rightarrow> row \<Rightarrow> exn + contractor \<times> nat" where
  "build_contractor clk loads hm current_year ticks row_index row =
     (let name = get_value hm row ''name'' '''';
          query = get_value hm row ''query'' '''';
          place_id = get_value hm row ''place_id'' '''';
          slug = slug_of name;
          phone = get_value hm row ''phone'' '''';
          phone_type = get_value hm row ''phone.phones_enricher.carrier_type'' '''';
          phone_carrier = get_value hm row ''phone.phones_enricher.carrier_name'' '''';
          city = get_value hm row ''city'' '''';
          state = get_value hm row ''state'' (get_value hm row ''us_state'' '''');
          zip_code = get_value hm row ''postal_code'' '''';
          full_address = get_value hm row ''full_address'' ''''
      in bind_exn (get_number hm row ''latitude'') (\<lambda>latitude.
         bind_exn (get_number hm row ''longitude'') (\<lambda>longitude.
         let email1 = get_value hm row ''email_1'' '''';
             email1_status = get_value hm row ''email_1.emails_validator.status'' '''';
             email1_details = get_value hm row ''email_1.emails_validator.status_details'' ''''
         in
         bind_exn (clean_number (VStr (get_value hm row ''site.company_insights.founded_year''
                                    (get_value hm row ''company_year_started'' '''')))) (\<lambda>year_founded.
         bind_exn (clean_number (VStr (get_value hm row ''site.company_insights.employees''
                                    (get_value hm row ''number_of_employees'' '''')))) (\<lambda>employee_count.
         let description = get_value hm row ''description''
                             (get_value hm row ''site.company_insights.description'' '''');
             verified = get_boolean hm row ''verified'';
             services = services_of (get_value hm row ''subtypes'' '''');
             hours_obj = parse_hours loads (get_value hm row ''working_hours'' '''');
             additional_phones = fst (collect_phones hm row phone);
             additional_emails = collect_emails hm row;
             years_in_business = years_in_business_of current_year year_founded;
             has_valid_email = (email1_status = ''RECEIVING'');
             has_mobile_phone = has_mobile_phone_of phone_type additional_phones;
             website = get_value hm row ''site'' '''';
             facebook = get_value hm row ''facebook'' ''''
         in
         bind_exn (get_number hm row ''rating'') (\<lambda>rating.
         bind_exn (clean_number (VStr (get_value hm row ''reviews'' ''''))) (\<lambda>reviews_count.
         bind_exn (clean_number (case get_cell hm row ''photos_count'' of
                              None \<Rightarrow> VInt 0 | Some v \<Rightarrow> VStr v)) (\<lambda>photos_count.
         let (ident, ticks') = contractor_id clk ticks place_id row_index
         in Inr
           (\<lparr>c_id = ident,
             c_slug = slug,
             c_basic_info =
               \<lparr>bi_name = name,
                bi_query = query,
                bi_location =
                  \<lparr>loc_city = city,
                   loc_state = state,
                   loc_zip = zip_code,
                   loc_full_address = full_address,
                   loc_latitude = latitude,
                   loc_longitude = longitude\<rparr>\<rparr>,
             c_contact_info =
               \<lparr>ci_phone =
                  \<lparr>ph_primary = phone,
                   ph_type = phone_type,
                   ph_carrier = phone_carrier,
                   ph_additional_phones = additional_phones\<rparr>,
                ci_email =
                  \<lparr>em_address = email1,
                   em_status = email1_status,
                   em_validation_details = email1_details,
                   em_contact = contact_of hm row ''email_1''\<rparr>,
                ci_additional_emails = additional_emails\<rparr>,
             c_web_presence =
               \<lparr>wp_website = website,
                wp_website_details =
                  \<lparr>wd_has_website = (website \<noteq> ''''),
                   wd_title = get_value hm row ''website_title'' '''',
                   wd_description = get_value hm row ''website_description'' '''',
                   wd_generator = get_value hm row ''website_generator'' '''',
                   wd_has_fb_pixel = get_boolean hm row ''website_has_fb_pixel'',
                   wd_has_google_tag = get_boolean hm row ''website_has_google_tag''\<rparr>,
                wp_social_media =
                  \<lparr>sm_facebook = facebook,
                   sm_instagram = get_value hm row ''instagram'' '''',
                   sm_linkedin = get_value hm row ''linkedin'' '''',
                   sm_twitter = get_value hm row ''twitter'' '''',
                   sm_youtube = get_value hm row ''youtube'' ''''\<rparr>\<rparr>,
             c_business_details =
               \<lparr>bd_year_founded = year_founded,
                bd_years_in_business = years_in_business,
                bd_employee_count = employee_count,
                bd_business_type = get_value hm row ''business_type'' '''',
                bd_description = description,
                bd_services = services,
                bd_hours = hours_obj\<rparr>,
             c_online_presence =
               \<lparr>op_google_rating = rating,
                op_google_reviews_count = reviews_count,
                op_google_reviews_link = get_value hm row ''reviews_link'' '''',
                op_google_place_id = place_id,
                op_business_status = get_value hm row ''business_status'' '''',
                op_photos_count = photos_count,
                op_photo_url = get_value hm row ''photo'' '''',
                op_verified = verified\<rparr>,
             c_segmentation =
               \<lparr>sg_has_valid_email = has_valid_email,
                sg_has_mobile_phone = has_mobile_phone,
                sg_has_website = (website \<noteq> ''''),
                sg_has_facebook = (facebook \<noteq> ''''),
                sg_has_reviews = int_above reviews_count 0,
                sg_high_rating = high_rating_of rating,
                sg_established_business = int_above years_in_business 5,
                sg_is_verified = verified\<rparr>\<rparr>,
            ticks')))))))))"

section \<open>Row selector and aggregator\<close>

text \<open>What the run prints, as events rather than as formatted lines.\<close>

datatype event =
    Warn_out_of_range int
  | Warn_no_name int
  | Processed_row int string
  | Processed_total nat
  | Segment_stats segments

record run_state =
  rs_contractors :: "contractor list"
  rs_events :: "event list"
  rs_ticks :: nat

text \<open>
  One round of the loop of line 72. \<open>row[header_map.get('name', 0)]\<close> on line 83 has no
  bounds check: on a non-empty row that is too short it raises \<open>IndexError\<close>.
\<close>

definition process_row ::
  "clock \<Rightarrow> json_loads \<Rightarrow> header_map \<Rightarrow> row list \<Rightarrow> int \<Rightarrow> run_state \<Rightarrow> int \<Rightarrow> exn + run_state" where
  "process_row clk loads hm all_rows current_year st row_index =
     (let adjusted_index = row_index - 1
      in if adjusted_index < 0 \<or> int (length all_rows) \<le> adjusted_index then
           Inr (st\<lparr>rs_events := rs_events st @ [Warn_out_of_range row_index]\<rparr>)
         else
           let row = all_rows ! nat adjusted_index;
               name_index = (case hm ''name'' of None \<Rightarrow> 0 | Some i \<Rightarrow> i)
           in if row = [] then
                Inr (st\<lparr>rs_events := rs_events st @ [Warn_no_name row_index]\<rparr>)
              else if length row \<le> name_index then Inl IndexError
              else if row ! name_index = '''' then
                Inr (st\<lparr>rs_events := rs_events st @ [Warn_no_name row_index]\<rparr>)
              else
                (case build_contractor clk loads hm current_year (rs_ticks st) row_index row of
                   Inl e \<Rightarrow> Inl e
                 | Inr (contractor, ticks') \<Rightarrow>
                     Inr \<lparr>rs_contractors = rs_contractors st @ [contractor],
                          rs_events = rs_events st
                            @ [Processed_row row_index (bi_name (c_basic_info contractor))],
                          rs_ticks = ticks'\<rparr>))"

fun process_rows ::
  "clock \<Rightarrow> json_loads \<Rightarrow> header_map \<Rightarrow> row list \<Rightarrow> int \<Rightarrow> run_state \<Rightarrow> int list \<Rightarrow> exn + run_state" where
  "process_rows clk loads hm all_rows current_year st [] = Inr st"
| "process_rows clk loads hm all_rows current_year st (row_index # rest) =
     (case process_row clk loads hm all_rows current_year st row_index of
        Inl e \<Rightarrow> Inl e
      | Inr st' \<Rightarrow> process_rows clk loads hm all_rows current_year st' rest)"

text \<open>Lines 301 to 308.\<close>

definition segment_stats :: "contractor list \<Rightarrow> segments" where
  "segment_stats cs =
     \<lparr>with_website = length (filter (\<lambda>c. sg_has_website (c_segmentation c)) cs),
      with_valid_email = length (filter (\<lambda>c. sg_has_valid_email (c_segmentation c)) cs),
      with_mobile_phone = length (filter (\<lambda>c. sg_has_mobile_phone (c_segmentation c)) cs),
      high_rated = length (filter (\<lambda>c. sg_high_rating (c_segmentation c)) cs),
      established = length (filter (\<lambda>c. sg_established_business (c_segmentation c)) cs),
      verified = length (filter (\<lambda>c. sg_is_verified (c_segmentation c)) cs)\<rparr>"

text \<open>
  \<open>convert_to_json\<close> on a table already read (\<open>headers\<close>, \<open>all_rows\<close>): the document
  handed to \<open>json.dump\<close> and the events printed, or the exception that ended the run
  (then nothing is written). Reading and writing the files are outside the model.
\<close>

definition convert_to_json ::
  "clock \<Rightarrow> json_loads \<Rightarrow> string list \<Rightarrow> row list \<Rightarrow> int list \<Rightarrow> exn + json_data \<times> event list" where
  "convert_to_json clk loads headers all_rows specific_rows =
     (let current_year = rd_year (clk 0);
          header_map = header_map_of headers
      in case process_rows clk loads header_map all_rows current_year
                \<lparr>rs_contractors = [], rs_events = [], rs_ticks = 1\<rparr> specific_rows of
           Inl e \<Rightarrow> Inl e
         | Inr st \<Rightarrow>
             let hvac = rs_contractors st;
                 segs = segment_stats hvac
             in Inr
               (\<lparr>hvac_contractors = hvac,
                 doc_meta =
                   \<lparr>total_count = length hvac,
                    generated_at = rd_isoformat (clk (rs_ticks st)),
                    meta_segments = segs,
                    processed_rows = specific_rows\<rparr>\<rparr>,
                rs_events st @ [Processed_total (length hvac), Segment_stats segs]))"

section \<open>Notions used to state the properties\<close>

text \<open>One field of every record of a run, or the exception that ended the run.\<close>

definition column_of :: "(contractor \<Rightarrow> 'a) \<Rightarrow> exn + json_data \<times> event list \<Rightarrow> exn + 'a list" where
  "column_of f r = (case r of Inl e \<Rightarrow> Inl e | Inr (doc, evs) \<Rightarrow> Inr (map f (hvac_contractors doc)))"

text \<open>
  The day entries of a pipe-delimited hours string, in the words of the specification:
  split on \<open>|\<close>, each entry split on \<open>:\<close>; an entry of exactly two parts gives a pair of the
  lower-cased day and the time, any other entry gives nothing.
\<close>

definition day_entries :: "string \<Rightarrow> (string \<times> json) list" where
  "day_entries s =
     concat (map (\<lambda>entry. case str_split CHR '':'' entry of
                            [day, time] \<Rightarrow> [(str_lower day, JStr time)]
                          | _ \<Rightarrow> [])
               (str_split CHR ''|'' s))"

text \<open>
  Two records that differ at most in a fallback id, and two documents that differ at most
  in fallback ids and in \<open>generated_at\<close>.
\<close>

definition same_record :: "contractor \<Rightarrow> contractor \<Rightarrow> bool" where
  "same_record c1 c2 =
     (c1\<lparr>c_id := c_id c2\<rparr> = c2
      \<and> (op_google_place_id (c_online_presence c1) = '''' \<or> c_id c1 = c_id c2))"

definition same_document :: "json_data \<Rightarrow> json_data \<Rightarrow> bool" where
  "same_document d1 d2 =
     (list_all2 same_record (hvac_contractors d1) (hvac_contractors d2)
      \<and> (doc_meta d1)\<lparr>generated_at := generated_at (doc_meta d2)\<rparr> = doc_meta d2)"

text \<open>The states of two runs that have produced the same records and printed the same lines.\<close>

definition same_state :: "run_state \<Rightarrow> run_state \<Rightarrow> bool" where
  "same_state s1 s2 =
     (list_all2 same_record (rs_contractors s1) (rs_contractors s2)
      \<and> rs_events s1 = rs_events s2)"

text \<open>
  The invariant of the phone loop: the entries have pairwise different digits, all of them
  are in the set of processed numbers, and so is the seed (the digits of the primary
  phone), which no entry repeats.
\<close>

definition phones_ok :: "string set \<Rightarrow> phone_state \<Rightarrow> bool" where
  "phones_ok seed st =
     (distinct (map (\<lambda>p. digits_only (pe_number p)) (fst st))
      \<and> set (map (\<lambda>p. digits_only (pe_number p)) (fst st)) \<subseteq> snd st
      \<and> seed \<subseteq> snd st
      \<and> set (map (\<lambda>p. digits_only (pe_number p)) (fst st)) \<inter> seed = {})"

text \<open>
  A row has a cell for a column when the header names the column and the row is long
  enough; \<open>cell_of\<close> is that cell, cleaned.
\<close>

definition has_cell :: "header_map \<Rightarrow> row \<Rightarrow> string \<Rightarrow> bool" where
  "has_cell hm row key = (case hm key of None \<Rightarrow> False | Some i \<Rightarrow> i < length row)"

definition cell_of :: "header_map \<Rightarrow> row \<Rightarrow> string \<Rightarrow> string" where
  "cell_of hm row key =
     (case hm key of None \<Rightarrow> [] | Some i \<Rightarrow> clean_string (VStr (row ! i)))"

section \<open>Example runs\<close>

definition example_clock :: clock where
  "example_clock k =
     \<lparr>rd_year = 2025, rd_timestamp = 1700000000 + int k, rd_isoformat = ''2025-06-01T12:00:00''\<rparr>"

text \<open>A second run in the same year, and one in the year after.\<close>

definition second_clock :: clock where
  "second_clock k =
     \<lparr>rd_year = 2025, rd_timestamp = 1710000000 + int k, rd_isoformat = ''2025-12-24T08:30:00''\<rparr>"

definition next_year_clock :: clock where
  "next_year_clock k =
     \<lparr>rd_year = 2026, rd_timestamp = 1770000000 + int k, rd_isoformat = ''2026-02-01T09:00:00''\<rparr>"

text \<open>A parser that rejects every text, and one that knows a single object.\<close>

definition no_json :: json_loads where
  "no_json s = Inl ValueError"

definition example_loads :: json_loads where
  "example_loads s =
     (if s = ''{\"mon\": \"9-5\"}'' then Inr (JObj [(''mon'', JStr ''9-5'')]) else Inl ValueError)"

definition example_headers :: "string list" where
  "example_headers =
     [''name'', ''place_id'', ''phone'', ''phone_1'', ''phone_2'',
      ''phone_2.phones_enricher.carrier_type'', ''site'', ''state'', ''us_state'',
      ''site.company_insights.founded_year'', ''rating'', ''verified'', ''working_hours'']"

definition example_rows :: "row list" where
  "example_rows =
     [[''Bob Heating'', '''', ''(555) 123-4567'', ''555-123-4567'', '''', '''',
       ''http://bob.example'', '''', ''TX'', ''0'', ''4.5'', ''TRUE'', ''mon:9-5|tue:9-5''],
      [''Ann Cooling'', ''ChIJ2'', ''555 987 6543'', ''(555) 987-6543'', ''555-222-3333'',
       ''Mobile'', '''', ''LA'', ''TX'', ''2000'', ''3.9'', ''false'', ''closed sundays''],
      []]"

definition example_selection :: "int list" where
  "example_selection = [1, 3, 9, 2]"

definition empty_person :: person where
  "empty_person = \<lparr>ps_full_name = '''', ps_first_name = '''', ps_last_name = '''', ps_title = ''''\<rparr>"

definition empty_email :: email_entry where
  "empty_email =
     \<lparr>em_address = '''', em_status = '''', em_validation_details = '''', em_contact = empty_person\<rparr>"

definition empty_social_media :: social_media where
  "empty_social_media =
     \<lparr>sm_facebook = '''', sm_instagram = '''', sm_linkedin = '''', sm_twitter = '''',
      sm_youtube = ''''\<rparr>"

definition example_contractor_1 :: contractor where
  "example_contractor_1 =
     \<lparr>c_id = ''id-1-1700000001'',
      c_slug = ''bob-heating'',
      c_basic_info =
        \<lparr>bi_name = ''Bob Heating'', bi_query = '''',
         bi_location =
           \<lparr>loc_city = '''', loc_state = '''', loc_zip = '''', loc_full_address = '''',
            loc_latitude = None, loc_longitude = None\<rparr>\<rparr>,
      c_contact_info =
        \<lparr>ci_phone =
           \<lparr>ph_primary = ''(555) 123-4567'', ph_type = '''', ph_carrier = '''',
            ph_additional_phones = []\<rparr>,
         ci_email = empty_email,
         ci_additional_emails = []\<rparr>,
      c_web_presence =
        \<lparr>wp_website = ''http://bob.example'',
         wp_website_details =
           \<lparr>wd_has_website = True, wd_title = '''', wd_description = '''', wd_generator = '''',
            wd_has_fb_pixel = False, wd_has_google_tag = False\<rparr>,
         wp_social_media = empty_social_media\<rparr>,
      c_business_details =
        \<lparr>bd_year_founded = Some 0, bd_years_in_business = None, bd_employee_count = None,
         bd_business_type = '''', bd_description = '''', bd_services = [],
         bd_hours = JObj [(''mon'', JStr ''9-5''), (''tue'', JStr ''9-5'')]\<rparr>,
      c_online_presence =
        \<lparr>op_google_rating = Some (Finite False 5066549580791808 (- 50)),
         op_google_reviews_count = None, op_google_reviews_link = '''',
         op_google_place_id = '''', op_business_status = '''', op_photos_count = Some 0,
         op_photo_url = '''', op_verified = True\<rparr>,
      c_segmentation =
        \<lparr>sg_has_valid_email = False, sg_has_mobile_phone = False, sg_has_website = True,
         sg_has_facebook = False, sg_has_reviews = False, sg_high_rating = True,
         sg_established_business = False, sg_is_verified = True\<rparr>\<rparr>"

definition example_contractor_2 :: contractor where
  "example_contractor_2 =
     \<lparr>c_id = ''ChIJ2'',
      c_slug = ''ann-cooling'',
      c_basic_info =
        \<lparr>bi_name = ''Ann Cooling'', bi_query = '''',
         bi_location =
           \<lparr>loc_city = '''', loc_state = ''LA'', loc_zip = '''', loc_full_address = '''',
            loc_latitude = None, loc_longitude = None\<rparr>\<rparr>,
      c_contact_info =
        \<lparr>ci_phone =
           \<lparr>ph_primary = ''555 987 6543'', ph_type = '''', ph_carrier = '''',
            ph_additional_phones =
              [\<lparr>pe_number = ''555-222-3333'', pe_type = ''Mobile'', pe_carrier = ''''\<rparr>]\<rparr>,
         ci_email = empty_email,
         ci_additional_emails = []\<rparr>,
      c_web_presence =
        \<lparr>wp_website = '''',
         wp_website_details =
           \<lparr>wd_has_website = False, wd_title = '''', wd_description = '''', wd_generator = '''',
            wd_has_fb_pixel = False, wd_has_google_tag = False\<rparr>,
         wp_social_media = empty_social_media\<rparr>,
      c_business_details =
        \<lparr>bd_year_founded = Some 2000, bd_years_in_business = Some 25, bd_employee_count = None,
         bd_business_type = '''', bd_description = '''', bd_services = [],
         bd_hours = JObj [(''raw_hours'', JStr ''closed sundays'')]\<rparr>,
      c_online_presence =
        \<lparr>op_google_rating = Some (Finite False 8782019273372467 (- 51)),
         op_google_reviews_count = None, op_google_reviews_link = '''',
         op_google_place_id = ''ChIJ2'', op_business_status = '''', op_photos_count = Some 0,
         op_photo_url = '''', op_verified = False\<rparr>,
      c_segmentation =
        \<lparr>sg_has_valid_email = False, sg_has_mobile_phone = True, sg_has_website = False,
         sg_has_facebook = False, sg_has_reviews = False, sg_high_rating = False,
         sg_established_business = True, sg_is_verified = False\<rparr>\<rparr>"

definition example_segments :: segments where
  "example_segments =
     \<lparr>with_website = 1, with_valid_email = 0, with_mobile_phone = 1, high_rated = 1,
      established = 1, verified = 1\<rparr>"

definition example_doc :: json_data where
  "example_doc =
     \<lparr>hvac_contractors = [example_contractor_1, example_contractor_2],
      doc_meta =
        \<lparr>total_count = 2, generated_at = ''2025-06-01T12:00:00'',
         meta_segments = example_segments, processed_rows = example_selection\<rparr>\<rparr>"

definition example_events :: "event list" where
  "example_events =
     [Processed_row 1 ''Bob Heating'', Warn_no_name 3, Warn_out_of_range 9,
      Processed_row 2 ''Ann Cooling'', Processed_total 2, Segment_stats example_segments]"

text \<open>The same table with a single request, past its last row: a run without records.\<close>

definition no_segments :: segments where
  "no_segments =
     \<lparr>with_website = 0, with_valid_email = 0, with_mobile_phone = 0, high_rated = 0,
      established = 0, verified = 0\<rparr>"

definition empty_doc :: json_data where
  "empty_doc =
     \<lparr>hvac_contractors = [],
      doc_meta =
        \<lparr>total_count = 0, generated_at = ''2025-06-01T12:00:00'',
         meta_segments = no_segments, processed_rows = [99]\<rparr>\<rparr>"

definition empty_events :: "event list" where
  "empty_events = [Warn_out_of_range 99, Processed_total 0, Segment_stats no_segments]"

text \<open>
  A table whose cells carry characters beyond ASCII: a state and a year padded with the
  no-break space U+00A0, a site that is only that space, and a flag followed by U+0085.
  And an hours text with an accented capital letter.
\<close>

definition padded_headers :: "string list" where
  "padded_headers =
     [''name'', ''state'', ''site'', ''site.company_insights.founded_year'', ''verified'']"

definition padded_rows :: "row list" where
  "padded_rows =
     [[''Bob Heating'', ''TX'' @ [CHR 0xA0], [CHR 0xA0], CHR 0xA0 # ''2000'',
       ''true'' @ [CHR 0x85]]]"

definition accented_hours :: string where
  "accented_hours = ''MI'' @ [CHR 0xC9] @ '':9-5|JUE:9-5''"

text \<open>A table whose first data row is shorter than the header.\<close>

definition short_headers :: "string list" where
  "short_headers = [''query'', ''name'']"

definition short_rows :: "row list" where
  "short_rows = [[''hvac''], [''hvac'', ''Bob Heating'']]"

text \<open>A table with the text \<open>inf\<close> in the employee count, and one with a founding year.\<close>

definition inf_headers :: "string list" where
  "inf_headers = [''name'', ''site.company_insights.employees'']"

definition inf_rows :: "row list" where
  "inf_rows = [[''Bob Heating'', ''inf'']]"

definition founded_headers :: "string list" where
  "founded_headers = [''name'', ''place_id'', ''site.company_insights.founded_year'']"

definition founded_rows :: "row list" where
  "founded_rows = [[''Ann Cooling'', ''ChIJ2'', ''2000'']]"

section \<open>General lemmas\<close>

lemma bind_exn_Inr: "bind_exn (Inr v) f = f v"
  by (simp add: bind_exn_def)

lemma bind_exn_Inl: "bind_exn (Inl e) f = Inl e"
  by (simp add: bind_exn_def)

lemma bind_exn_weak_cong: "m = m' \<Longrightarrow> bind_exn m f = bind_exn m' f"
  by simp

subsection \<open>What a built record holds\<close>

lemma build_phone:
  assumes "build_contractor clk loads hm cy t ri row = Inr (c, t')"
  shows "ph_primary (ci_phone (c_contact_info c)) = get_value hm row ''phone'' ''''"
    and "ph_additional_phones (ci_phone (c_contact_info c)) =
           fst (collect_phones hm row (get_value hm row ''phone'' ''''))"
  using assms
  by (auto simp: build_contractor_def bind_exn_def Let_def split: sum.splits prod.splits)

lemma build_website:
  assumes "build_contractor clk loads hm cy t ri row = Inr (c, t')"
  shows "wp_website (c_web_presence c) = get_value hm row ''site'' ''''"
    and "wd_has_website (wp_website_details (c_web_presence c)) = (get_value hm row ''site'' '''' \<noteq> '''')"
    and "sg_has_website (c_segmentation c) = (get_value hm row ''site'' '''' \<noteq> '''')"
  using assms
  by (auto simp: build_contractor_def bind_exn_def Let_def split: sum.splits prod.splits)

lemma build_years:
  assumes "build_contractor clk loads hm cy t ri row = Inr (c, t')"
  shows "bd_years_in_business (c_business_details c) =
           years_in_business_of cy (bd_year_founded (c_business_details c))"
  using assms
  by (auto simp: build_contractor_def bind_exn_def Let_def split: sum.splits prod.splits)

lemma build_fallbacks:
  assumes "build_contractor clk loads hm cy t ri row = Inr (c, t')"
  shows "loc_state (bi_location (c_basic_info c)) =
           get_value hm row ''state'' (get_value hm row ''us_state'' '''')"
    and "bd_description (c_business_details c) =
           get_value hm row ''description'' (get_value hm row ''site.company_insights.description'' '''')"
    and "clean_number (VStr (get_value hm row ''site.company_insights.founded_year''
                               (get_value hm row ''company_year_started'' '''')))
           = Inr (bd_year_founded (c_business_details c))"
  using assms
  by (auto simp: build_contractor_def bind_exn_def Let_def split: sum.splits prod.splits)

text \<open>The clock only enters a record through its id.\<close>

lemma build_contractor_clock:
  "build_contractor clk loads hm cy t ri row =
     (case build_contractor clk0 loads hm cy t0 ri row of
        Inl e \<Rightarrow> Inl e
      | Inr (c, u) \<Rightarrow>
          Inr (c\<lparr>c_id := fst (contractor_id clk t (op_google_place_id (c_online_presence c)) ri)\<rparr>,
               snd (contractor_id clk t (op_google_place_id (c_online_presence c)) ri)))"
  by (auto simp: build_contractor_def bind_exn_def Let_def split: sum.splits prod.splits)

lemma build_id:
  assumes "build_contractor clk loads hm cy t ri row = Inr (c, t')"
  shows "c_id c = fst (contractor_id clk t (op_google_place_id (c_online_presence c)) ri)"
  using assms
  by (auto simp: build_contractor_def bind_exn_def Let_def split: sum.splits prod.splits)

subsection \<open>Where the records of a run come from\<close>

lemma process_row_origin:
  assumes "process_row clk loads hm all_rows cy st ri = Inr st'"
    and "c \<in> set (rs_contractors st')"
  shows "c \<in> set (rs_contractors st) \<or>
         (1 \<le> ri \<and> ri \<le> int (length all_rows) \<and>
          (\<exists>t t'. build_contractor clk loads hm cy t ri (all_rows ! nat (ri - 1)) = Inr (c, t')))"
  using assms
  by (auto simp: process_row_def Let_def split: if_splits sum.splits prod.splits)

lemma process_rows_origin:
  assumes "process_rows clk loads hm all_rows cy st rs = Inr st'"
    and "c \<in> set (rs_contractors st')"
  shows "c \<in> set (rs_contractors st) \<or>
         (\<exists>ri \<in> set rs. 1 \<le> ri \<and> ri \<le> int (length all_rows) \<and>
            (\<exists>t t'. build_contractor clk loads hm cy t ri (all_rows ! nat (ri - 1)) = Inr (c, t')))"
  using assms
proof (induction rs arbitrary: st)
  case Nil
  then show ?case by simp
next
  case (Cons r rs)
  from Cons.prems(1) obtain st1 where
    s1: "process_row clk loads hm all_rows cy st r = Inr st1"
    and s2: "process_rows clk loads hm all_rows cy st1 rs = Inr st'"
    by (auto split: sum.splits)
  from Cons.IH[OF s2 Cons.prems(2)] show ?case
  proof
    assume "c \<in> set (rs_contractors st1)"
    from process_row_origin[OF s1 this] show ?thesis by auto
  next
    assume "\<exists>ri \<in> set rs. 1 \<le> ri \<and> ri \<le> int (length all_rows) \<and>
            (\<exists>t t'. build_contractor clk loads hm cy t ri (all_rows ! nat (ri - 1)) = Inr (c, t'))"
    then show ?thesis by auto
  qed
qed

lemma convert_origin:
  assumes "convert_to_json clk loads headers all_rows specific_rows = Inr (doc, evs)"
    and "c \<in> set (hvac_contractors doc)"
  shows "\<exists>ri \<in> set specific_rows. 1 \<le> ri \<and> ri \<le> int (length all_rows) \<and>
           (\<exists>t t'. build_contractor clk loads (header_map_of headers) (rd_year (clk 0)) t ri
                      (all_rows ! nat (ri - 1)) = Inr (c, t'))"
proof -
  from assms(1) obtain st where
    run: "process_rows clk loads (header_map_of headers) all_rows (rd_year (clk 0))
            \<lparr>rs_contractors = [], rs_events = [], rs_ticks = 1\<rparr> specific_rows = Inr st"
    and doc: "hvac_contractors doc = rs_contractors st"
    by (auto simp: convert_to_json_def Let_def split: sum.splits)
  from assms(2) doc have "c \<in> set (rs_contractors st)" by simp
  from process_rows_origin[OF run this] show ?thesis by simp
qed

subsection \<open>The phone loop\<close>

lemma add_phone_ok: "phones_ok seed st \<Longrightarrow> phones_ok seed (add_phone hm row field st)"
  by (cases st) (auto simp: phones_ok_def add_phone_def Let_def)

lemma fold_add_phone_ok:
  "phones_ok seed st \<Longrightarrow> phones_ok seed (fold (add_phone hm row) fs st)"
  by (induction fs arbitrary: st) (simp_all add: add_phone_ok)

lemma collect_phones_ok:
  "phones_ok (if phone \<noteq> '''' then {digits_only phone} else {}) (collect_phones hm row phone)"
  unfolding collect_phones_def
  by (rule fold_add_phone_ok) (simp add: phones_ok_def)

lemma collect_phones_distinct:
  "distinct (map (\<lambda>p. digits_only (pe_number p)) (fst (collect_phones hm row phone)))"
  using collect_phones_ok[of phone hm row] by (simp add: phones_ok_def)

lemma collect_phones_not_primary:
  "phone \<noteq> '''' \<Longrightarrow>
   digits_only phone \<notin> set (map (\<lambda>p. digits_only (pe_number p)) (fst (collect_phones hm row phone)))"
  using collect_phones_ok[of phone hm row] by (auto simp: phones_ok_def)

lemma collect_phones_example:
  assumes "get_value hm row ''phone_1'' '''' = ''555-123-4567''"
    and "get_value hm row ''phone_2'' '''' = ''''"
    and "get_value hm row ''phone_3'' '''' = ''''"
  shows "fst (collect_phones hm row ''(555) 123-4567'') = []"
  using assms
  by (simp add: collect_phones_def phone_fields_def add_phone_def digits_only_def is_digit_def)

subsection \<open>The hours loop\<close>

lemma add_day_hour_entries:
  "map_of (add_day_hour acc entry) =
     map_of acc ++ map_of (case str_split CHR '':'' entry of
                             [day, time] \<Rightarrow> [(str_lower day, JStr time)]
                           | _ \<Rightarrow> [])"
  by (auto simp: add_day_hour_def update_conv' split: list.splits)

lemma add_day_hour_distinct:
  "distinct (map fst acc) \<Longrightarrow> distinct (map fst (add_day_hour acc entry))"
  by (auto simp: add_day_hour_def distinct_update split: list.splits)

lemma foldl_add_day_hour:
  "map_of (foldl add_day_hour acc es) =
     map_of acc ++ map_of (rev (concat (map (\<lambda>entry. case str_split CHR '':'' entry of
                            [day, time] \<Rightarrow> [(str_lower day, JStr time)]
                          | _ \<Rightarrow> []) es)))"
proof (induction es arbitrary: acc)
  case Nil
  then show ?case by simp
next
  case (Cons e es)
  show ?case
    by (simp add: Cons.IH add_day_hour_entries split: list.splits)
qed

lemma foldl_add_day_hour_distinct:
  "distinct (map fst acc) \<Longrightarrow> distinct (map fst (foldl add_day_hour acc es))"
  by (induction es arbitrary: acc) (simp_all add: add_day_hour_distinct)

text \<open>The keys of the hours mapping have no upper-case letter.\<close>

lemma letters_disjoint: "set lower_letters \<inter> set upper_letters = {}"
  by (simp add: lower_letters_def upper_letters_def)

lemma lower_char_not_upper: "lower_char c \<notin> set upper_letters"
proof (cases "map_of (zip upper_letters lower_letters) c")
  case None
  have "length upper_letters = length lower_letters"
    by (simp add: upper_letters_def lower_letters_def)
  with None have "c \<notin> set upper_letters"
    by simp
  with None show ?thesis by (simp add: lower_char_def)
next
  case (Some d)
  then have "(c, d) \<in> set (zip upper_letters lower_letters)"
    by (rule map_of_SomeD)
  then have "d \<in> set lower_letters"
    by (rule set_zip_rightD)
  with letters_disjoint have "d \<notin> set upper_letters" by blast
  with Some show ?thesis by (simp add: lower_char_def)
qed

lemma str_lower_no_upper: "set (str_lower s) \<inter> set upper_letters = {}"
  using lower_char_not_upper by (auto simp: str_lower_def)

lemma update_keys:
  assumes "\<forall>p \<in> set al. P (fst p)" and "P k"
  shows "\<forall>p \<in> set (AList.update k v al). P (fst p)"
  using assms by (induction al) auto

lemma add_day_hour_keys:
  assumes "\<forall>p \<in> set acc. set (fst p) \<inter> set upper_letters = {}"
  shows "\<forall>p \<in> set (add_day_hour acc entry). set (fst p) \<inter> set upper_letters = {}"
proof (cases "\<exists>day time. str_split CHR '':'' entry = [day, time]")
  case True
  then obtain day time where e: "str_split CHR '':'' entry = [day, time]" by blast
  have "\<forall>p \<in> set (AList.update (str_lower day) (JStr time) acc).
          set (fst p) \<inter> set upper_letters = {}"
    using assms str_lower_no_upper[of day]
    by (rule update_keys[where P = "\<lambda>k. set k \<inter> set upper_letters = {}"])
  with e show ?thesis by (simp add: add_day_hour_def)
next
  case False
  then have "add_day_hour acc entry = acc"
    by (auto simp: add_day_hour_def split: list.splits)
  with assms show ?thesis by simp
qed

lemma foldl_add_day_hour_keys:
  assumes "\<forall>p \<in> set acc. set (fst p) \<inter> set upper_letters = {}"
  shows "\<forall>p \<in> set (foldl add_day_hour acc es). set (fst p) \<inter> set upper_letters = {}"
  using assms
proof (induction es arbitrary: acc)
  case Nil
  then show ?case by simp
next
  case (Cons e es)
  from add_day_hour_keys[OF Cons.prems] have
    "\<forall>p \<in> set (add_day_hour acc e). set (fst p) \<inter> set upper_letters = {}" .
  from Cons.IH[OF this] show ?case by simp
qed

subsection \<open>Two runs with different clocks\<close>

lemma same_record_segmentation:
  assumes "same_record c1 c2"
  shows "c_segmentation c1 = c_segmentation c2"
proof -
  from assms have "c1\<lparr>c_id := c_id c2\<rparr> = c2" by (simp add: same_record_def)
  then have "c_segmentation (c1\<lparr>c_id := c_id c2\<rparr>) = c_segmentation c2" by simp
  then show ?thesis by simp
qed

lemma same_record_name:
  assumes "same_record c1 c2"
  shows "c_basic_info c1 = c_basic_info c2"
proof -
  from assms have "c1\<lparr>c_id := c_id c2\<rparr> = c2" by (simp add: same_record_def)
  then have "c_basic_info (c1\<lparr>c_id := c_id c2\<rparr>) = c_basic_info c2" by simp
  then show ?thesis by simp
qed

lemma same_records_count:
  assumes "list_all2 same_record xs ys"
  shows "length (filter (\<lambda>c. P (c_segmentation c)) xs) = length (filter (\<lambda>c. P (c_segmentation c)) ys)"
  using assms
  by (induction rule: list_all2_induct) (simp_all add: same_record_segmentation)

lemma same_records_segment_stats:
  assumes "list_all2 same_record xs ys"
  shows "segment_stats xs = segment_stats ys"
  unfolding segment_stats_def
  by (simp add: same_records_count[OF assms])

lemma build_two_clocks:
  "(case build_contractor clk1 loads hm cy t1 ri row of
      Inl e \<Rightarrow> build_contractor clk2 loads hm cy t2 ri row = Inl e
    | Inr (c1, u1) \<Rightarrow>
        (\<exists>c2 u2. build_contractor clk2 loads hm cy t2 ri row = Inr (c2, u2) \<and> same_record c1 c2))"
proof (cases "build_contractor clk2 loads hm cy t2 ri row")
  case (Inl e)
  then show ?thesis
    by (simp add: build_contractor_clock[of clk1 loads hm cy t1 ri row clk2 t2])
next
  case (Inr p)
  obtain c2 u2 where p: "p = (c2, u2)" by (cases p)
  from Inr p have b2: "build_contractor clk2 loads hm cy t2 ri row = Inr (c2, u2)" by simp
  have id2: "c_id c2 = fst (contractor_id clk2 t2 (op_google_place_id (c_online_presence c2)) ri)"
    by (rule build_id[OF b2])
  show ?thesis
    using id2
    by (simp add: build_contractor_clock[of clk1 loads hm cy t1 ri row clk2 t2] b2
        same_record_def contractor_id_def)
qed

lemma process_row_two_clocks:
  assumes "same_state st1 st2"
  shows "(case process_row clk1 loads hm all_rows cy st1 ri of
            Inl e \<Rightarrow> process_row clk2 loads hm all_rows cy st2 ri = Inl e
          | Inr s1 \<Rightarrow>
              (\<exists>s2. process_row clk2 loads hm all_rows cy st2 ri = Inr s2 \<and> same_state s1 s2))"
  using assms build_two_clocks[where ?clk1.0 = clk1 and loads = loads and hm = hm and cy = cy
      and ?t1.0 = "rs_ticks st1" and ri = ri and row = "all_rows ! nat (ri - 1)"
      and ?clk2.0 = clk2 and ?t2.0 = "rs_ticks st2"]
  by (auto simp: process_row_def Let_def same_state_def list_all2_appendI same_record_name
      split: sum.splits prod.splits)

lemma process_rows_two_clocks:
  assumes "same_state st1 st2"
  shows "(case process_rows clk1 loads hm all_rows cy st1 rs of
            Inl e \<Rightarrow> process_rows clk2 loads hm all_rows cy st2 rs = Inl e
          | Inr s1 \<Rightarrow>
              (\<exists>s2. process_rows clk2 loads hm all_rows cy st2 rs = Inr s2 \<and> same_state s1 s2))"
  using assms
proof (induction rs arbitrary: st1 st2)
  case Nil
  then show ?case by simp
next
  case (Cons r rs)
  show ?case
  proof (cases "process_row clk1 loads hm all_rows cy st1 r")
    case (Inl e)
    with process_row_two_clocks[OF Cons.prems, where ?clk1.0 = clk1 and loads = loads and hm = hm
        and all_rows = all_rows and cy = cy and ri = r and ?clk2.0 = clk2]
    show ?thesis by simp
  next
    case (Inr s1)
    with process_row_two_clocks[OF Cons.prems, where ?clk1.0 = clk1 and loads = loads and hm = hm
        and all_rows = all_rows and cy = cy and ri = r and ?clk2.0 = clk2]
    obtain s2 where s2: "process_row clk2 loads hm all_rows cy st2 r = Inr s2"
      and rel: "same_state s1 s2" by auto
    from Cons.IH[OF rel] Inr s2 show ?thesis by (simp split: sum.splits)
  qed
qed

subsection \<open>Which exceptions a row can raise\<close>

lemma float_of_string_error: "float_of_string s = Inl e \<Longrightarrow> e = ValueError"
  by (auto simp: float_of_string_def Let_def split: prod.splits if_splits option.splits)

lemma get_number_total: "\<exists>x. get_number hm row key = Inr x"
proof (cases "float_of_string (get_value hm row key '''')")
  case (Inl e)
  with float_of_string_error[OF Inl] show ?thesis
    by (simp add: get_number_def except_value_type_def Let_def)
next
  case (Inr x)
  then show ?thesis
    by (simp add: get_number_def Let_def)
qed

lemma int_of_float_error: "int_of_float x = Inl e \<Longrightarrow> e = OverflowError \<or> e = ValueError"
  by (cases x) (auto simp: int_of_float_def Let_def)

lemma py_float_error: "py_float n = Inl e \<Longrightarrow> e = OverflowError \<or> e = ValueError \<or> e = TypeError"
  by (cases n) (auto simp: py_float_def dest: float_of_string_error split: pyfloat.splits)

lemma clean_number_error: "clean_number n = Inl e \<Longrightarrow> e = OverflowError"
  by (auto simp: clean_number_def except_value_type_def
      dest!: py_float_error int_of_float_error split: if_splits sum.splits)

lemma build_contractor_error:
  assumes "build_contractor clk loads hm cy t ri row = Inl e"
  shows "e = OverflowError"
proof -
  obtain lat where lat: "get_number hm row ''latitude'' = Inr lat"
    using get_number_total by blast
  obtain lon where lon: "get_number hm row ''longitude'' = Inr lon"
    using get_number_total by blast
  obtain rt where rt: "get_number hm row ''rating'' = Inr rt"
    using get_number_total by blast
  from assms show ?thesis
    by (auto simp: build_contractor_def bind_exn_def Let_def lat lon rt
        dest: clean_number_error split: sum.splits prod.splits)
qed

lemma process_row_error:
  assumes "process_row clk loads hm all_rows cy st ri = Inl e"
  shows "e = IndexError \<or> e = OverflowError"
  using assms
  by (auto simp: process_row_def Let_def dest: build_contractor_error
      split: if_splits sum.splits prod.splits)

subsection \<open>The rows that are skipped\<close>

lemma out_of_range_row_skipped:
  assumes "ri < 1 \<or> int (length all_rows) < ri"
  shows "process_row clk loads hm all_rows cy st ri =
           Inr (st\<lparr>rs_events := rs_events st @ [Warn_out_of_range ri]\<rparr>)"
  using assms by (auto simp: process_row_def Let_def)

lemma empty_row_skipped:
  assumes "1 \<le> ri" and "ri \<le> int (length all_rows)" and "all_rows ! nat (ri - 1) = []"
  shows "process_row clk loads hm all_rows cy st ri =
           Inr (st\<lparr>rs_events := rs_events st @ [Warn_no_name ri]\<rparr>)"
  using assms by (auto simp: process_row_def Let_def)

lemma unnamed_row_skipped:
  assumes "1 \<le> ri" and "ri \<le> int (length all_rows)"
    and "hm ''name'' = Some i" and "i < length (all_rows ! nat (ri - 1))"
    and "all_rows ! nat (ri - 1) ! i = ''''"
  shows "process_row clk loads hm all_rows cy st ri =
           Inr (st\<lparr>rs_events := rs_events st @ [Warn_no_name ri]\<rparr>)"
  using assms by (auto simp: process_row_def Let_def)

lemma named_row_appended:
  assumes "1 \<le> ri" and "ri \<le> int (length all_rows)"
    and "hm ''name'' = Some i" and "i < length (all_rows ! nat (ri - 1))"
    and "all_rows ! nat (ri - 1) ! i \<noteq> ''''"
    and "build_contractor clk loads hm cy (rs_ticks st) ri (all_rows ! nat (ri - 1)) = Inr (c, t')"
  shows "process_row clk loads hm all_rows cy st ri =
           Inr \<lparr>rs_contractors = rs_contractors st @ [c],
                rs_events = rs_events st @ [Processed_row ri (bi_name (c_basic_info c))],
                rs_ticks = t'\<rparr>"
  using assms by (auto simp: process_row_def Let_def)

section \<open>Evaluating the model on concrete tables\<close>

lemmas weak_congs = let_weak_cong bind_exn_weak_cong sum.case_cong_weak option.case_cong_weak
  list.case_cong_weak prod.case_cong_weak

lemmas string_defs = is_digit_def is_space_def strip_with_def str_strip_def lower_char_def
  upper_letters_def lower_letters_def upper_points_def str_lower_def str_upper_def
  code_points_def str_replace_def startswith_def digits_only_def str_of_int_def

lemmas float_defs = float_of_string_def to_ascii_def is_float_space_def ascii_lower_char_def
  split_sign_def
  parse_number_def parse_exponent_def is_digitpart_def digits_value_def digit_value_def
  decimal_to_double_def round_double_def int_of_float_def

lemmas number_defs = clean_number_def py_float_def except_value_type_def

lemmas cell_defs = clean_string_def get_cell_def get_value_def get_number_def get_boolean_def

lemmas build_defs = add_phone_def phone_fields_def collect_phones_def contact_of_def
  add_email_def collect_emails_def services_of_def int_truthy_def years_in_business_of_def
  int_above_def has_mobile_phone_of_def contractor_id_def bind_exn_Inr bind_exn_Inl
  build_contractor_def

lemma float_of_string_inf: "float_of_string ''inf'' = Inr (Infinity False)"
  by (simp add: float_of_string_def to_ascii_def strip_with_def is_float_space_def
      split_sign_def ascii_lower_char_def)

lemma clean_number_inf: "clean_number (VStr ''inf'') = Inl OverflowError"
  by (simp add: number_defs float_of_string_inf int_of_float_def)

lemma clean_number_empty: "clean_number (VStr []) = Inr None"
  by (simp add: clean_number_def)

lemma clean_number_int_0: "clean_number (VInt 0) = Inr (Some 0)"
  by (simp add: number_defs round_double_def int_of_float_def)

lemma clean_number_0: "clean_number (VStr ''0'') = Inr (Some 0)"
  by (simp add: string_defs float_defs number_defs Let_def)

lemma clean_number_2000: "clean_number (VStr ''2000'') = Inr (Some 2000)"
  by (simp add: string_defs float_defs number_defs Let_def)

lemma float_of_string_4_5: "float_of_string ''4.5'' = Inr (Finite False 5066549580791808 (- 50))"
  by (simp add: string_defs float_defs Let_def)

lemma float_of_string_3_9: "float_of_string ''3.9'' = Inr (Finite False 8782019273372467 (- 51))"
  by (simp add: string_defs float_defs Let_def)

lemma high_rating_4_5: "high_rating_of (Some (Finite False 5066549580791808 (- 50)))"
  by (simp add: high_rating_of_def float_truthy_def float_ge_def)

lemma high_rating_3_9: "\<not> high_rating_of (Some (Finite False 8782019273372467 (- 51)))"
  by (simp add: high_rating_of_def float_truthy_def float_ge_def)

lemma high_rating_None: "\<not> high_rating_of None"
  by (simp add: high_rating_of_def)

lemma parse_hours_empty: "parse_hours loads [] = JObj []"
  by (simp add: parse_hours_def)

lemma parse_hours_pipes:
  "parse_hours loads ''mon:9-5|tue:9-5'' = JObj [(''mon'', JStr ''9-5''), (''tue'', JStr ''9-5'')]"
  by (simp add: parse_hours_def startswith_def add_day_hour_def str_lower_def lower_char_def
      upper_letters_def lower_letters_def)

lemma parse_hours_closed:
  "parse_hours loads ''closed sundays'' = JObj [(''raw_hours'', JStr ''closed sundays'')]"
  by (simp add: parse_hours_def startswith_def raw_hours_def)

lemma slug_of_examples:
  "slug_of ''Bob Heating'' = ''bob-heating''"
  "slug_of ''Ann Cooling'' = ''ann-cooling''"
  by (simp_all add: slug_of_def str_lower_def lower_char_def upper_letters_def lower_letters_def
      is_slug_char_def strip_with_def)

lemma str_of_int_examples:
  "str_of_int 1 = ''1''"
  "str_of_int 1700000001 = ''1700000001''"
  by (simp_all add: str_of_int_def)

lemmas cell_values = clean_number_inf clean_number_empty clean_number_int_0 clean_number_0
  clean_number_2000 float_of_string_4_5 float_of_string_3_9 high_rating_4_5 high_rating_3_9
  high_rating_None parse_hours_empty parse_hours_pipes parse_hours_closed slug_of_examples
  str_of_int_examples

lemma example_header_map:
  "header_map_of example_headers =
     [''name'' \<mapsto> 0, ''place_id'' \<mapsto> 1, ''phone'' \<mapsto> 2, ''phone_1'' \<mapsto> 3, ''phone_2'' \<mapsto> 4,
      ''phone_2.phones_enricher.carrier_type'' \<mapsto> 5, ''site'' \<mapsto> 6, ''state'' \<mapsto> 7,
      ''us_state'' \<mapsto> 8, ''site.company_insights.founded_year'' \<mapsto> 9, ''rating'' \<mapsto> 10,
      ''verified'' \<mapsto> 11, ''working_hours'' \<mapsto> 12]"
  by (simp add: header_map_of_def example_headers_def eval_nat_numeral)

lemma example_build_1:
  "build_contractor example_clock loads (header_map_of example_headers) 2025 (Suc 0) 1
     [''Bob Heating'', '''', ''(555) 123-4567'', ''555-123-4567'', '''', '''',
       ''http://bob.example'', '''', ''TX'', ''0'', ''4.5'', ''TRUE'', ''mon:9-5|tue:9-5'']
   = Inr (example_contractor_1, 2)"
  by (simp add: example_header_map cell_defs string_defs build_defs cell_values example_clock_def
      example_contractor_1_def empty_email_def empty_person_def empty_social_media_def
      except_value_type_def Let_def cong: weak_congs)

lemma example_build_2:
  "build_contractor example_clock loads (header_map_of example_headers) 2025 2 2
     [''Ann Cooling'', ''ChIJ2'', ''555 987 6543'', ''(555) 987-6543'', ''555-222-3333'',
       ''Mobile'', '''', ''LA'', ''TX'', ''2000'', ''3.9'', ''false'', ''closed sundays'']
   = Inr (example_contractor_2, 2)"
  by (simp add: example_header_map cell_defs string_defs build_defs cell_values example_clock_def
      example_contractor_2_def empty_email_def empty_person_def empty_social_media_def
      except_value_type_def Let_def cong: weak_congs)

lemma example_run:
  "convert_to_json example_clock no_json example_headers example_rows example_selection
     = Inr (example_doc, example_events)"
proof -
  have name: "header_map_of example_headers ''name'' = Some 0"
    by (simp add: example_header_map)
  have year: "rd_year (example_clock 0) = 2025" "rd_isoformat (example_clock 2) = ''2025-06-01T12:00:00''"
    by (simp_all add: example_clock_def)
  show ?thesis
    by (simp add: convert_to_json_def year example_rows_def example_selection_def process_row_def
        name example_build_1 example_build_2 segment_stats_def example_contractor_1_def
        example_contractor_2_def example_doc_def example_events_def example_segments_def
        Let_def cong: weak_congs)
qed

lemma example_build_row_1:
  "build_contractor example_clock loads (header_map_of example_headers) 2025 (Suc 0) 1
     (example_rows ! 0) = Inr (example_contractor_1, 2)"
  using example_build_1 by (simp add: example_rows_def)

lemma get_value_cases:
  "get_value hm row key d = (if has_cell hm row key then cell_of hm row key else d)"
  by (simp add: get_value_def get_cell_def has_cell_def cell_of_def split: option.splits)

lemma example_members:
  "example_contractor_1 \<in> set (hvac_contractors example_doc)"
  "example_contractor_2 \<in> set (hvac_contractors example_doc)"
  by (simp_all add: example_doc_def)

lemma empty_run:
  "convert_to_json example_clock no_json example_headers example_rows [99]
     = Inr (empty_doc, empty_events)"
  by (simp add: convert_to_json_def example_rows_def process_row_def segment_stats_def
      example_clock_def empty_doc_def empty_events_def no_segments_def Let_def cong: weak_congs)

lemma short_header_map:
  "header_map_of short_headers = [''query'' \<mapsto> 0, ''name'' \<mapsto> 1]"
  by (simp add: header_map_of_def short_headers_def eval_nat_numeral)

lemma inf_header_map:
  "header_map_of inf_headers = [''name'' \<mapsto> 0, ''site.company_insights.employees'' \<mapsto> 1]"
  by (simp add: header_map_of_def inf_headers_def eval_nat_numeral)

lemma founded_header_map:
  "header_map_of founded_headers =
     [''name'' \<mapsto> 0, ''place_id'' \<mapsto> 1, ''site.company_insights.founded_year'' \<mapsto> 2]"
  by (simp add: header_map_of_def founded_headers_def eval_nat_numeral)

lemma founded_years:
  "column_of (\<lambda>c. bd_years_in_business (c_business_details c))
     (convert_to_json clk loads founded_headers founded_rows [1])
   = Inr [Some (rd_year (clk 0) - 2000)]"
  by (simp add: column_of_def convert_to_json_def founded_header_map founded_rows_def
      process_row_def cell_defs string_defs build_defs cell_values except_value_type_def
      Let_def cong: weak_congs)

subsection \<open>Cells with characters beyond ASCII\<close>

lemma latin_1_values:
  "clean_string (VStr (''TX'' @ [CHR 0xA0])) = ''TX''"
  "clean_string (VStr [CHR 0x85, CHR 0xA0]) = ''''"
  "str_lower (''MI'' @ [CHR 0xC9, CHR 0xD7]) = ''mi'' @ [CHR 0xE9, CHR 0xD7]"
  "str_upper (''stra'' @ [CHR 0xDF] @ ''e'') = code_points ''STRASSE''"
  "str_upper [CHR 0xE9, CHR 0xB5, CHR 0xFF] = [201, 924, 376]"
  "str_upper ''true'' = code_points ''TRUE''"
  by (simp_all add: string_defs clean_string_def)

lemma latin_1_numbers:
  "clean_number (VStr (CHR 0xA0 # ''2000'')) = Inr (Some 2000)"
  "clean_number (VStr (''2000'' @ [CHR 0xE9])) = Inr None"
  by (simp_all add: string_defs float_defs number_defs Let_def)

lemma padded_header_map:
  "header_map_of padded_headers =
     [''name'' \<mapsto> 0, ''state'' \<mapsto> 1, ''site'' \<mapsto> 2,
      ''site.company_insights.founded_year'' \<mapsto> 3, ''verified'' \<mapsto> 4]"
  by (simp add: header_map_of_def padded_headers_def eval_nat_numeral)

lemma padded_cells:
  "has_cell (header_map_of padded_headers) (padded_rows ! 0) ''state''"
  "cell_of (header_map_of padded_headers) (padded_rows ! 0) ''state'' = ''TX''"
  "has_cell (header_map_of padded_headers) (padded_rows ! 0) ''site.company_insights.founded_year''"
  "cell_of (header_map_of padded_headers) (padded_rows ! 0) ''site.company_insights.founded_year''
     = ''2000''"
  "get_value (header_map_of padded_headers) (padded_rows ! 0) ''site'' '''' = ''''"
  by (simp_all add: has_cell_def cell_of_def padded_header_map padded_rows_def cell_defs
      string_defs)

lemma padded_build_ok:
  "(case build_contractor example_clock no_json (header_map_of padded_headers) 2025 (Suc 0) 1
            (padded_rows ! 0) of Inl e \<Rightarrow> False | Inr p \<Rightarrow> True)"
  by (simp add: padded_header_map padded_rows_def cell_defs string_defs build_defs cell_values
      except_value_type_def Let_def cong: weak_congs)

lemma padded_build:
  obtains c t' where
    "build_contractor example_clock no_json (header_map_of padded_headers) 2025 (Suc 0) 1
       (padded_rows ! 0) = Inr (c, t')"
  using padded_build_ok
  by (cases "build_contractor example_clock no_json (header_map_of padded_headers) 2025 (Suc 0) 1
       (padded_rows ! 0)") auto

lemma padded_run_ok:
  "(case convert_to_json example_clock no_json padded_headers padded_rows [1] of
      Inl e \<Rightarrow> False
    | Inr p \<Rightarrow> length (hvac_contractors (fst p)) = 1)"
  by (simp add: convert_to_json_def padded_header_map padded_rows_def process_row_def cell_defs
      string_defs build_defs cell_values except_value_type_def Let_def cong: weak_congs)

lemma padded_run:
  obtains doc evs where
    "convert_to_json example_clock no_json padded_headers padded_rows [1] = Inr (doc, evs)"
    and "length (hvac_contractors doc) = 1"
  using padded_run_ok
  by (cases "convert_to_json example_clock no_json padded_headers padded_rows [1]") auto

section \<open>The claims\<close>

text \<open>
  C1. For every run that completes, each of the six counts in \<open>meta.segments\<close> is the number
  of records of the final \<open>hvac_contractors\<close> list whose flag is true: \<open>with_website\<close> counts
  \<open>has_website\<close>, \<open>with_valid_email\<close> counts \<open>has_valid_email\<close>, \<open>with_mobile_phone\<close>
  counts \<open>has_mobile_phone\<close>, \<open>high_rated\<close> counts \<open>high_rating\<close>, \<open>established\<close> counts
  \<open>established_business\<close> and \<open>verified\<close> counts \<open>is_verified\<close>; with no record, all six
  are zero.
\<close>

theorem segment_counts_match:
  assumes "convert_to_json clk loads headers all_rows specific_rows = Inr (doc, evs)"
  shows "with_website (meta_segments (doc_meta doc)) =
           card {i. i < length (hvac_contractors doc)
                    \<and> sg_has_website (c_segmentation (hvac_contractors doc ! i))}
       \<and> with_valid_email (meta_segments (doc_meta doc)) =
           card {i. i < length (hvac_contractors doc)
                    \<and> sg_has_valid_email (c_segmentation (hvac_contractors doc ! i))}
       \<and> with_mobile_phone (meta_segments (doc_meta doc)) =
           card {i. i < length (hvac_contractors doc)
                    \<and> sg_has_mobile_phone (c_segmentation (hvac_contractors doc ! i))}
       \<and> high_rated (meta_segments (doc_meta doc)) =
           card {i. i < length (hvac_contractors doc)
                    \<and> sg_high_rating (c_segmentation (hvac_contractors doc ! i))}
       \<and> established (meta_segments (doc_meta doc)) =
           card {i. i < length (hvac_contractors doc)
                    \<and> sg_established_business (c_segmentation (hvac_contractors doc ! i))}
       \<and> verified (meta_segments (doc_meta doc)) =
           card {i. i < length (hvac_contractors doc)
                    \<and> sg_is_verified (c_segmentation (hvac_contractors doc ! i))}
       \<and> (hvac_contractors doc = [] \<longrightarrow>
            meta_segments (doc_meta doc) =
              \<lparr>with_website = 0, with_valid_email = 0, with_mobile_phone = 0, high_rated = 0,
               established = 0, verified = 0\<rparr>)"
proof -
  from assms have segs: "meta_segments (doc_meta doc) = segment_stats (hvac_contractors doc)"
    by (auto simp: convert_to_json_def Let_def split: sum.splits)
  show ?thesis
    unfolding segs segment_stats_def
    by (simp add: length_filter_conv_card)
qed

theorem segment_counts_match_witness:
  "convert_to_json example_clock no_json example_headers example_rows example_selection
     = Inr (example_doc, example_events)
   \<and> card {i. i < length (hvac_contractors example_doc)
              \<and> sg_has_website (c_segmentation (hvac_contractors example_doc ! i))}
       = with_website (meta_segments (doc_meta example_doc))
   \<and> with_website (meta_segments (doc_meta example_doc)) = 1
   \<and> card {i. i < length (hvac_contractors example_doc)
              \<and> sg_has_valid_email (c_segmentation (hvac_contractors example_doc ! i))}
       = with_valid_email (meta_segments (doc_meta example_doc))
   \<and> with_valid_email (meta_segments (doc_meta example_doc)) = 0
   \<and> convert_to_json example_clock no_json example_headers example_rows [99]
       = Inr (empty_doc, empty_events)
   \<and> hvac_contractors empty_doc = []
   \<and> meta_segments (doc_meta empty_doc) =
         \<lparr>with_website = 0, with_valid_email = 0, with_mobile_phone = 0, high_rated = 0,
          established = 0, verified = 0\<rparr>"
proof -
  note counts = segment_counts_match[OF example_run]
  have counted: "with_website (meta_segments (doc_meta example_doc)) = 1"
    "with_valid_email (meta_segments (doc_meta example_doc)) = 0"
    by (simp_all add: example_doc_def example_segments_def)
  have none: "hvac_contractors empty_doc = []"
    by (simp add: empty_doc_def)
  from segment_counts_match[OF empty_run] none
  have zeros: "meta_segments (doc_meta empty_doc) =
         \<lparr>with_website = 0, with_valid_email = 0, with_mobile_phone = 0, high_rated = 0,
          established = 0, verified = 0\<rparr>"
    by blast
  from counts counted example_run empty_run none zeros show ?thesis by presburger
qed

text \<open>
  C2. In every record of a run, no two entries of \<open>additional_phones\<close> have the same
  digits-only number, and when the primary phone is not empty no entry has the digits of
  the primary phone. In particular a row with primary phone \<open>(555) 123-4567\<close>, \<open>phone_1\<close>
  \<open>555-123-4567\<close> and no other phone gives a record with no additional phone.
\<close>

theorem phones_deduplicated:
  "(convert_to_json clk loads headers all_rows specific_rows = Inr (doc, evs)
      \<and> c \<in> set (hvac_contractors doc) \<longrightarrow>
      distinct (map (\<lambda>p. digits_only (pe_number p))
                  (ph_additional_phones (ci_phone (c_contact_info c))))
      \<and> (ph_primary (ci_phone (c_contact_info c)) \<noteq> '''' \<longrightarrow>
           digits_only (ph_primary (ci_phone (c_contact_info c)))
             \<notin> set (map (\<lambda>p. digits_only (pe_number p))
                       (ph_additional_phones (ci_phone (c_contact_info c))))))
   \<and> (build_contractor clk loads hm cy t ri row = Inr (c', t')
      \<and> get_value hm row ''phone'' '''' = ''(555) 123-4567''
      \<and> get_value hm row ''phone_1'' '''' = ''555-123-4567''
      \<and> get_value hm row ''phone_2'' '''' = ''''
      \<and> get_value hm row ''phone_3'' '''' = '''' \<longrightarrow>
      ph_additional_phones (ci_phone (c_contact_info c')) = [])"
proof (intro conjI impI)
  assume run: "convert_to_json clk loads headers all_rows specific_rows = Inr (doc, evs)
      \<and> c \<in> set (hvac_contractors doc)"
  then obtain ri t t' where
    b: "build_contractor clk loads (header_map_of headers) (rd_year (clk 0)) t ri
          (all_rows ! nat (ri - 1)) = Inr (c, t')"
    using convert_origin by blast
  show "distinct (map (\<lambda>p. digits_only (pe_number p))
                  (ph_additional_phones (ci_phone (c_contact_info c))))"
    by (simp only: build_phone(2)[OF b] collect_phones_distinct)
  assume "ph_primary (ci_phone (c_contact_info c)) \<noteq> ''''"
  then show "digits_only (ph_primary (ci_phone (c_contact_info c)))
             \<notin> set (map (\<lambda>p. digits_only (pe_number p))
                       (ph_additional_phones (ci_phone (c_contact_info c))))"
    unfolding build_phone(1)[OF b] build_phone(2)[OF b]
    by (rule collect_phones_not_primary)
next
  assume h: "build_contractor clk loads hm cy t ri row = Inr (c', t')
      \<and> get_value hm row ''phone'' '''' = ''(555) 123-4567''
      \<and> get_value hm row ''phone_1'' '''' = ''555-123-4567''
      \<and> get_value hm row ''phone_2'' '''' = ''''
      \<and> get_value hm row ''phone_3'' '''' = ''''"
  then have b: "build_contractor clk loads hm cy t ri row = Inr (c', t')" by simp
  from h show "ph_additional_phones (ci_phone (c_contact_info c')) = []"
    by (simp add: build_phone(2)[OF b] collect_phones_example)
qed

theorem phones_deduplicated_witness:
  "convert_to_json example_clock no_json example_headers example_rows example_selection
     = Inr (example_doc, example_events)
   \<and> example_contractor_2 \<in> set (hvac_contractors example_doc)
   \<and> ph_primary (ci_phone (c_contact_info example_contractor_2)) = ''555 987 6543''
   \<and> map pe_number (ph_additional_phones (ci_phone (c_contact_info example_contractor_2)))
       = [''555-222-3333'']
   \<and> digits_only ''555 987 6543''
       \<notin> set (map (\<lambda>p. digits_only (pe_number p))
                 (ph_additional_phones (ci_phone (c_contact_info example_contractor_2))))
   \<and> build_contractor example_clock no_json (header_map_of example_headers) 2025 (Suc 0) 1
        (example_rows ! 0) = Inr (example_contractor_1, 2)
   \<and> get_value (header_map_of example_headers) (example_rows ! 0) ''phone'' '''' = ''(555) 123-4567''
   \<and> get_value (header_map_of example_headers) (example_rows ! 0) ''phone_1'' '''' = ''555-123-4567''
   \<and> get_value (header_map_of example_headers) (example_rows ! 0) ''phone_2'' '''' = ''''
   \<and> get_value (header_map_of example_headers) (example_rows ! 0) ''phone_3'' '''' = ''''
   \<and> ph_additional_phones (ci_phone (c_contact_info example_contractor_1)) = []"
proof -
  have cells:
    "get_value (header_map_of example_headers) (example_rows ! 0) ''phone'' '''' = ''(555) 123-4567''"
    "get_value (header_map_of example_headers) (example_rows ! 0) ''phone_1'' '''' = ''555-123-4567''"
    "get_value (header_map_of example_headers) (example_rows ! 0) ''phone_2'' '''' = ''''"
    "get_value (header_map_of example_headers) (example_rows ! 0) ''phone_3'' '''' = ''''"
    by (simp_all add: example_header_map example_rows_def cell_defs string_defs)
  have fields:
    "ph_primary (ci_phone (c_contact_info example_contractor_2)) = ''555 987 6543''"
    "map pe_number (ph_additional_phones (ci_phone (c_contact_info example_contractor_2)))
       = [''555-222-3333'']"
    by (simp_all add: example_contractor_2_def)
  note t = phones_deduplicated[where clk = example_clock and loads = no_json
      and headers = example_headers and all_rows = example_rows
      and specific_rows = example_selection and doc = example_doc and evs = example_events
      and c = example_contractor_2 and hm = "header_map_of example_headers" and cy = 2025
      and t = "Suc 0" and ri = 1 and row = "example_rows ! 0" and c' = example_contractor_1
      and t' = 2]
  from t example_run example_members(2) example_build_row_1[of no_json] cells fields
  show ?thesis by simp
qed

text \<open>
  C3. A requested row number outside the rows of the table, or a row without a name, only
  gives a warning and is skipped, and no failure on a row ends the run, whatever the row
  holds, also when it has fewer cells than the header.

  The code does not do this. Line 83 reads \<open>row[header_map.get('name', 0)]\<close> with no bounds
  check, while \<open>get_value\<close> on line 90 has one: a non-empty row that ends before the name
  column raises \<open>IndexError\<close>, the run ends there, and the rows after it are never
  processed. The rest of the claim holds: a row number out of range and a row without a
  name are skipped with a warning (\<open>out_of_range_row_skipped\<close>, \<open>empty_row_skipped\<close>,
  \<open>unnamed_row_skipped\<close>), and a row can end the run with \<open>IndexError\<close> or
  \<open>OverflowError\<close> only (\<open>process_row_error\<close>).
\<close>

theorem short_row_aborts:
  "convert_to_json clk loads short_headers short_rows [1, 2] = Inl IndexError"
  by (simp add: convert_to_json_def short_header_map short_rows_def process_row_def Let_def
      cong: weak_congs)

text \<open>
  C4, as claimed: \<open>parse_hours\<close> gives the empty mapping on the empty string, parses a
  string that begins with a brace as JSON, splits a string with a pipe, and gives
  \<open>raw_hours\<close> on any other input. It fails on the text \<open>None\<close>, which is not empty, has no
  brace and no pipe: line 25 gives the empty mapping for it.
\<close>

theorem parse_hours_none_counterexample:
  "''None'' \<noteq> ''''
   \<and> \<not> startswith ''None'' CHR ''{''
   \<and> CHR ''|'' \<notin> set ''None''
   \<and> parse_hours no_json ''None'' = JObj []
   \<and> parse_hours no_json ''None'' \<noteq> JObj [(''raw_hours'', JStr ''None'')]"
  by (simp add: parse_hours_def startswith_def)

text \<open>
  C4, amended: \<open>parse_hours\<close> takes the first case that applies. The empty string and the
  text \<open>None\<close> give the empty mapping. A string that begins with a brace is parsed as JSON
  after its single quotes are replaced by double quotes, and gives \<open>raw_hours\<close> with the
  original string when the parser fails, also when the string has a pipe. Any other string
  with a pipe gives the mapping of its day entries: the keys are distinct and have no
  upper-case letter, and a key maps to the time of the last entry with that day, lower-cased
  as \<open>str.lower()\<close> does. Any other string gives \<open>raw_hours\<close> with the
  original string. The four examples hold, the JSON one for a parser that reads the
  rewritten text as the object it denotes.
\<close>

theorem parse_hours_policy:
  "parse_hours loads '''' = JObj []
   \<and> parse_hours loads ''None'' = JObj []
   \<and> (s \<noteq> '''' \<and> s \<noteq> ''None'' \<and> startswith s CHR ''{'' \<longrightarrow>
        parse_hours loads s =
          (case loads (str_replace (CHR 0x27) (CHR 0x22) s) of
             Inr hours_obj \<Rightarrow> hours_obj
           | Inl e \<Rightarrow> JObj [(''raw_hours'', JStr s)]))
   \<and> (s \<noteq> '''' \<and> s \<noteq> ''None'' \<and> \<not> startswith s CHR ''{'' \<and> CHR ''|'' \<in> set s \<longrightarrow>
        (\<exists>obj. parse_hours loads s = JObj obj \<and> distinct (map fst obj)
               \<and> map_of obj = map_of (rev (day_entries s))
               \<and> (\<forall>p \<in> set obj. set (fst p) \<inter> set upper_letters = {})))
   \<and> (s \<noteq> '''' \<and> s \<noteq> ''None'' \<and> \<not> startswith s CHR ''{'' \<and> CHR ''|'' \<notin> set s \<longrightarrow>
        parse_hours loads s = JObj [(''raw_hours'', JStr s)])
   \<and> parse_hours loads ''mon:9-5|tue:9-5'' = JObj [(''mon'', JStr ''9-5''), (''tue'', JStr ''9-5'')]
   \<and> (loads ''{\"mon\": \"9-5\"}'' = Inr (JObj [(''mon'', JStr ''9-5'')]) \<longrightarrow>
        parse_hours loads ''{'mon': '9-5'}'' = JObj [(''mon'', JStr ''9-5'')])
   \<and> parse_hours loads ''closed sundays'' = JObj [(''raw_hours'', JStr ''closed sundays'')]"
proof (intro conjI impI)
  show "parse_hours loads '''' = JObj []"
    by (simp add: parse_hours_def)
  show "parse_hours loads ''None'' = JObj []"
    by (simp add: parse_hours_def)
  show "parse_hours loads ''mon:9-5|tue:9-5'' = JObj [(''mon'', JStr ''9-5''), (''tue'', JStr ''9-5'')]"
    by (rule parse_hours_pipes)
  show "parse_hours loads ''closed sundays'' = JObj [(''raw_hours'', JStr ''closed sundays'')]"
    by (rule parse_hours_closed)
next
  assume "s \<noteq> '''' \<and> s \<noteq> ''None'' \<and> startswith s CHR ''{''"
  then show "parse_hours loads s =
          (case loads (str_replace (CHR 0x27) (CHR 0x22) s) of
             Inr hours_obj \<Rightarrow> hours_obj
           | Inl e \<Rightarrow> JObj [(''raw_hours'', JStr s)])"
    by (simp add: parse_hours_def raw_hours_def split: sum.splits)
next
  assume h: "s \<noteq> '''' \<and> s \<noteq> ''None'' \<and> \<not> startswith s CHR ''{'' \<and> CHR ''|'' \<in> set s"
  let ?obj = "foldl add_day_hour [] (str_split CHR ''|'' s)"
  from h have "parse_hours loads s = JObj ?obj"
    by (simp add: parse_hours_def)
  moreover have "distinct (map fst ?obj)"
    by (rule foldl_add_day_hour_distinct) simp
  moreover have "map_of ?obj = map_of (rev (day_entries s))"
    by (simp add: foldl_add_day_hour day_entries_def)
  moreover have "\<forall>p \<in> set ?obj. set (fst p) \<inter> set upper_letters = {}"
    by (rule foldl_add_day_hour_keys) simp
  ultimately show "\<exists>obj. parse_hours loads s = JObj obj \<and> distinct (map fst obj)
               \<and> map_of obj = map_of (rev (day_entries s))
               \<and> (\<forall>p \<in> set obj. set (fst p) \<inter> set upper_letters = {})"
    by blast
next
  assume "s \<noteq> '''' \<and> s \<noteq> ''None'' \<and> \<not> startswith s CHR ''{'' \<and> CHR ''|'' \<notin> set s"
  then show "parse_hours loads s = JObj [(''raw_hours'', JStr s)]"
    by (simp add: parse_hours_def raw_hours_def)
next
  assume "loads ''{\"mon\": \"9-5\"}'' = Inr (JObj [(''mon'', JStr ''9-5'')])"
  then show "parse_hours loads ''{'mon': '9-5'}'' = JObj [(''mon'', JStr ''9-5'')]"
    by (simp add: parse_hours_def startswith_def str_replace_def)
qed

theorem parse_hours_policy_witness:
  "example_loads ''{\"mon\": \"9-5\"}'' = Inr (JObj [(''mon'', JStr ''9-5'')])
   \<and> parse_hours example_loads ''{'mon': '9-5'}'' = JObj [(''mon'', JStr ''9-5'')]
   \<and> startswith ''{mon|tue'' CHR ''{''
   \<and> parse_hours example_loads ''{mon|tue'' = JObj [(''raw_hours'', JStr ''{mon|tue'')]
   \<and> CHR ''|'' \<in> set ''Mon:9-5|closed|mon:8-4''
   \<and> (\<exists>obj. parse_hours example_loads ''Mon:9-5|closed|mon:8-4'' = JObj obj
          \<and> map_of obj = [''mon'' \<mapsto> JStr ''8-4''])
   \<and> CHR ''|'' \<in> set accented_hours
   \<and> (\<exists>obj. parse_hours example_loads accented_hours = JObj obj
          \<and> map_of obj = [''mi'' @ [CHR 0xE9] \<mapsto> JStr ''9-5'', ''jue'' \<mapsto> JStr ''9-5'']
          \<and> (\<forall>p \<in> set obj. set (fst p) \<inter> set upper_letters = {}))
   \<and> CHR ''|'' \<notin> set ''24 hours''
   \<and> parse_hours example_loads ''24 hours'' = JObj [(''raw_hours'', JStr ''24 hours'')]"
proof -
  have loads: "example_loads ''{\"mon\": \"9-5\"}'' = Inr (JObj [(''mon'', JStr ''9-5'')])"
    by (simp add: example_loads_def)
  have brace: "''{mon|tue'' \<noteq> '''' \<and> ''{mon|tue'' \<noteq> ''None'' \<and> startswith ''{mon|tue'' CHR ''{''"
    by (simp add: startswith_def)
  have fails: "example_loads (str_replace (CHR 0x27) (CHR 0x22) ''{mon|tue'') = Inl ValueError"
    by (simp add: example_loads_def str_replace_def)
  have pipe: "''Mon:9-5|closed|mon:8-4'' \<noteq> '''' \<and> ''Mon:9-5|closed|mon:8-4'' \<noteq> ''None''
      \<and> \<not> startswith ''Mon:9-5|closed|mon:8-4'' CHR ''{''
      \<and> CHR ''|'' \<in> set ''Mon:9-5|closed|mon:8-4''"
    by (simp add: startswith_def)
  have entries: "map_of (rev (day_entries ''Mon:9-5|closed|mon:8-4'')) = [''mon'' \<mapsto> JStr ''8-4'']"
    by (simp add: day_entries_def str_lower_def lower_char_def upper_letters_def
        lower_letters_def)
  have accented: "accented_hours \<noteq> '''' \<and> accented_hours \<noteq> ''None''
      \<and> \<not> startswith accented_hours CHR ''{'' \<and> CHR ''|'' \<in> set accented_hours"
    by (simp add: accented_hours_def startswith_def)
  have accented_entries: "map_of (rev (day_entries accented_hours)) =
      [''mi'' @ [CHR 0xE9] \<mapsto> JStr ''9-5'', ''jue'' \<mapsto> JStr ''9-5'']"
    by (auto simp: accented_hours_def day_entries_def str_lower_def lower_char_def
        upper_letters_def lower_letters_def)
  have other: "''24 hours'' \<noteq> '''' \<and> ''24 hours'' \<noteq> ''None'' \<and> \<not> startswith ''24 hours'' CHR ''{''
      \<and> CHR ''|'' \<notin> set ''24 hours''"
    by (simp add: startswith_def)
  note p1 = parse_hours_policy[where loads = example_loads and s = "''{mon|tue''"]
  note p2 = parse_hours_policy[where loads = example_loads and s = "''Mon:9-5|closed|mon:8-4''"]
  note p3 = parse_hours_policy[where loads = example_loads and s = "''24 hours''"]
  note p4 = parse_hours_policy[where loads = example_loads and s = accented_hours]
  from p1 loads have a: "parse_hours example_loads ''{'mon': '9-5'}'' = JObj [(''mon'', JStr ''9-5'')]"
    by blast
  from p1 brace fails
  have b: "parse_hours example_loads ''{mon|tue'' = JObj [(''raw_hours'', JStr ''{mon|tue'')]"
    by simp
  from p2 pipe entries
  have c: "\<exists>obj. parse_hours example_loads ''Mon:9-5|closed|mon:8-4'' = JObj obj
          \<and> map_of obj = [''mon'' \<mapsto> JStr ''8-4'']"
    by auto
  from p3 other
  have d: "parse_hours example_loads ''24 hours'' = JObj [(''raw_hours'', JStr ''24 hours'')]"
    by blast
  from p4 accented obtain obj where
    "parse_hours example_loads accented_hours = JObj obj"
    "map_of obj = map_of (rev (day_entries accented_hours))"
    "\<forall>p \<in> set obj. set (fst p) \<inter> set upper_letters = {}"
    by blast
  with accented_entries
  have e: "\<exists>obj. parse_hours example_loads accented_hours = JObj obj
          \<and> map_of obj = [''mi'' @ [CHR 0xE9] \<mapsto> JStr ''9-5'', ''jue'' \<mapsto> JStr ''9-5'']
          \<and> (\<forall>p \<in> set obj. set (fst p) \<inter> set upper_letters = {})"
    by auto
  from loads a brace b pipe c accented e other d show ?thesis by blast
qed

text \<open>
  C5. A requested row number that is in range, on a row whose name cell is not empty, gives
  exactly one record.

  The code does not do this on every such row: \<open>clean_number\<close> lets the \<open>OverflowError\<close> of
  \<open>int(float("inf"))\<close> pass (see C8), so a named row with \<open>inf\<close> in a column read through
  \<open>clean_number\<close> ends the run with no record at all. On every other named row in range
  one record is appended (\<open>named_row_appended\<close>, \<open>build_contractor_error\<close>).
\<close>

theorem named_row_aborts:
  "inf_rows ! 0 ! 0 = ''Bob Heating''
   \<and> convert_to_json clk loads inf_headers inf_rows [1] = Inl OverflowError"
  by (simp add: convert_to_json_def inf_header_map inf_rows_def process_row_def cell_defs
      string_defs build_defs cell_values except_value_type_def Let_def cong: weak_congs)

text \<open>
  C6, as claimed: when the \<open>state\<close> column gives no value, also when the column is in the
  header and its cell is empty, the state of the record is the cleaned \<open>us_state\<close> cell. It
  fails on such a cell: \<open>get_value\<close> returns its default only when the column is missing.
\<close>

theorem state_fallback_counterexample:
  "convert_to_json example_clock no_json example_headers example_rows example_selection
     = Inr (example_doc, example_events)
   \<and> example_headers ! 7 = ''state''
   \<and> example_rows ! 0 ! 7 = ''''
   \<and> example_headers ! 8 = ''us_state''
   \<and> clean_string (VStr (example_rows ! 0 ! 8)) = ''TX''
   \<and> loc_state (bi_location (c_basic_info (hvac_contractors example_doc ! 0))) = ''''"
proof -
  have cells:
    "example_headers ! 7 = ''state''"
    "example_rows ! 0 ! 7 = ''''"
    "example_headers ! 8 = ''us_state''"
    "clean_string (VStr (example_rows ! 0 ! 8)) = ''TX''"
    by (simp_all add: example_headers_def example_rows_def clean_string_def string_defs)
  have "loc_state (bi_location (c_basic_info (hvac_contractors example_doc ! 0))) = ''''"
    by (simp add: example_doc_def example_contractor_1_def)
  with example_run cells show ?thesis by simp
qed

text \<open>
  C6, amended: the state of a record is the cleaned \<open>state\<close> cell of its row when the row has
  that cell, even an empty one; only when the header has no \<open>state\<close> column, or the row ends
  before it, is it the cleaned \<open>us_state\<close> cell (empty when that is missing too). In the
  same way the description falls back from \<open>description\<close> to
  \<open>site.company_insights.description\<close>, and the year founded is \<open>clean_number\<close> of the
  \<open>site.company_insights.founded_year\<close> cell, or of the \<open>company_year_started\<close> cell when the
  row has no cell for the former.
\<close>

theorem fallback_chains:
  assumes "build_contractor clk loads hm cy t ri row = Inr (c, t')"
  shows "loc_state (bi_location (c_basic_info c)) =
           (if has_cell hm row ''state'' then cell_of hm row ''state''
            else if has_cell hm row ''us_state'' then cell_of hm row ''us_state''
            else '''')
       \<and> bd_description (c_business_details c) =
           (if has_cell hm row ''description'' then cell_of hm row ''description''
            else if has_cell hm row ''site.company_insights.description''
            then cell_of hm row ''site.company_insights.description''
            else '''')
       \<and> Inr (bd_year_founded (c_business_details c)) =
           clean_number (VStr
             (if has_cell hm row ''site.company_insights.founded_year''
              then cell_of hm row ''site.company_insights.founded_year''
              else if has_cell hm row ''company_year_started''
              then cell_of hm row ''company_year_started''
              else ''''))"
  using build_fallbacks[OF assms]
  by (simp add: get_value_cases)

theorem fallback_chains_witness:
  "build_contractor example_clock no_json (header_map_of example_headers) 2025 (Suc 0) 1
     (example_rows ! 0) = Inr (example_contractor_1, 2)
   \<and> has_cell (header_map_of example_headers) (example_rows ! 0) ''state''
   \<and> cell_of (header_map_of example_headers) (example_rows ! 0) ''state'' = ''''
   \<and> loc_state (bi_location (c_basic_info example_contractor_1)) = ''''
   \<and> \<not> has_cell (header_map_of example_headers) (example_rows ! 0) ''description''
   \<and> \<not> has_cell (header_map_of example_headers) (example_rows ! 0)
         ''site.company_insights.description''
   \<and> bd_description (c_business_details example_contractor_1) = ''''
   \<and> padded_rows ! 0 ! 1 = ''TX'' @ [CHR 0xA0]
   \<and> padded_rows ! 0 ! 3 = CHR 0xA0 # ''2000''
   \<and> (\<exists>c t'. build_contractor example_clock no_json (header_map_of padded_headers) 2025
                 (Suc 0) 1 (padded_rows ! 0) = Inr (c, t')
             \<and> loc_state (bi_location (c_basic_info c)) = ''TX''
             \<and> bd_year_founded (c_business_details c) = Some 2000)"
proof -
  have cells:
    "has_cell (header_map_of example_headers) (example_rows ! 0) ''state''"
    "cell_of (header_map_of example_headers) (example_rows ! 0) ''state'' = ''''"
    "\<not> has_cell (header_map_of example_headers) (example_rows ! 0) ''description''"
    "\<not> has_cell (header_map_of example_headers) (example_rows ! 0)
         ''site.company_insights.description''"
    by (simp_all add: has_cell_def cell_of_def example_header_map example_rows_def
        clean_string_def)
  from fallback_chains[OF example_build_row_1[of no_json]] cells example_build_row_1[of no_json]
  have first: "build_contractor example_clock no_json (header_map_of example_headers) 2025 (Suc 0) 1
     (example_rows ! 0) = Inr (example_contractor_1, 2)
   \<and> has_cell (header_map_of example_headers) (example_rows ! 0) ''state''
   \<and> cell_of (header_map_of example_headers) (example_rows ! 0) ''state'' = ''''
   \<and> loc_state (bi_location (c_basic_info example_contractor_1)) = ''''
   \<and> \<not> has_cell (header_map_of example_headers) (example_rows ! 0) ''description''
   \<and> \<not> has_cell (header_map_of example_headers) (example_rows ! 0)
         ''site.company_insights.description''
   \<and> bd_description (c_business_details example_contractor_1) = ''''"
    by simp
  have raw: "padded_rows ! 0 ! 1 = ''TX'' @ [CHR 0xA0]" "padded_rows ! 0 ! 3 = CHR 0xA0 # ''2000''"
    by (simp_all add: padded_rows_def)
  obtain c t' where b: "build_contractor example_clock no_json (header_map_of padded_headers) 2025
                 (Suc 0) 1 (padded_rows ! 0) = Inr (c, t')"
    by (rule padded_build)
  from fallback_chains[OF b] padded_cells clean_number_2000
  have "loc_state (bi_location (c_basic_info c)) = ''TX''"
    and "bd_year_founded (c_business_details c) = Some 2000"
    by simp_all
  with b have second: "\<exists>c t'. build_contractor example_clock no_json (header_map_of padded_headers)
                 2025 (Suc 0) 1 (padded_rows ! 0) = Inr (c, t')
             \<and> loc_state (bi_location (c_basic_info c)) = ''TX''
             \<and> bd_year_founded (c_business_details c) = Some 2000"
    by blast
  from first raw second show ?thesis by blast
qed

text \<open>
  C7, as claimed: \<open>years_in_business\<close> is the current year minus \<open>year_founded\<close> whenever
  \<open>year_founded\<close> is a parsed integer, also when it is 0. It fails at 0: line 196 tests the
  truth value of \<open>year_founded\<close>, and 0 is false.
\<close>

theorem years_in_business_counterexample:
  "convert_to_json example_clock no_json example_headers example_rows example_selection
     = Inr (example_doc, example_events)
   \<and> bd_year_founded (c_business_details (hvac_contractors example_doc ! 0)) = Some 0
   \<and> bd_years_in_business (c_business_details (hvac_contractors example_doc ! 0)) = None"
proof -
  have "bd_year_founded (c_business_details (hvac_contractors example_doc ! 0)) = Some 0"
    and "bd_years_in_business (c_business_details (hvac_contractors example_doc ! 0)) = None"
    by (simp_all add: example_doc_def example_contractor_1_def)
  with example_run show ?thesis by simp
qed

text \<open>
  C7, amended: in every record of a run, \<open>years_in_business\<close> is the current year minus
  \<open>year_founded\<close> when \<open>year_founded\<close> is a parsed integer other than 0, and none when
  \<open>year_founded\<close> is absent or 0.
\<close>

theorem years_in_business_value:
  assumes "convert_to_json clk loads headers all_rows specific_rows = Inr (doc, evs)"
    and "c \<in> set (hvac_contractors doc)"
  shows "bd_years_in_business (c_business_details c) =
           (case bd_year_founded (c_business_details c) of
              None \<Rightarrow> None
            | Some y \<Rightarrow> if y = 0 then None else Some (rd_year (clk 0) - y))"
proof -
  from convert_origin[OF assms] obtain ri t t' where
    b: "build_contractor clk loads (header_map_of headers) (rd_year (clk 0)) t ri
          (all_rows ! nat (ri - 1)) = Inr (c, t')"
    by blast
  show ?thesis
    by (simp add: build_years[OF b] years_in_business_of_def int_truthy_def split: option.splits)
qed

theorem years_in_business_value_witness:
  "convert_to_json example_clock no_json example_headers example_rows example_selection
     = Inr (example_doc, example_events)
   \<and> example_contractor_2 \<in> set (hvac_contractors example_doc)
   \<and> bd_year_founded (c_business_details example_contractor_2) = Some 2000
   \<and> rd_year (example_clock 0) = 2025
   \<and> bd_years_in_business (c_business_details example_contractor_2) = Some 25"
proof -
  have "bd_year_founded (c_business_details example_contractor_2) = Some 2000"
    and "rd_year (example_clock 0) = 2025"
    by (simp_all add: example_contractor_2_def example_clock_def)
  with years_in_business_value[OF example_run example_members(2)] example_run example_members(2)
  show ?thesis by simp
qed

text \<open>
  C8. \<open>clean_number\<close> returns none for a null input, the empty string and \<open>None\<close>; otherwise
  it parses a float and truncates it to an integer, and returns none, never raising, when
  that fails.

  The code does not do this: the handler of line 20 catches \<open>ValueError\<close> and \<open>TypeError\<close>
  only, and \<open>int\<close> of an infinite float raises \<open>OverflowError\<close>.
\<close>

theorem clean_number_raises:
  "clean_number (VStr ''inf'') = Inl OverflowError
   \<and> clean_number (VStr ''-Infinity'') = Inl OverflowError"
  by (simp add: number_defs float_of_string_def to_ascii_def strip_with_def is_float_space_def
      split_sign_def ascii_lower_char_def int_of_float_def)

text \<open>The rest of the claim holds, on its four examples and on the null input.\<close>

lemma clean_number_examples:
  "clean_number VNone = Inr None"
  "clean_number (VStr ''None'') = Inr None"
  "clean_number (VStr '''') = Inr None"
  "clean_number (VStr ''42.9'') = Inr (Some 42)"
  "clean_number (VStr ''abc'') = Inr None"
  by (simp_all add: string_defs float_defs number_defs Let_def)

text \<open>
  C9, as claimed: two runs on the same table and the same row numbers give documents that
  differ at most in fallback ids and in \<open>generated_at\<close>. It fails when the year changes
  between the runs: \<open>years_in_business\<close> is computed from the current year.
\<close>

theorem rerun_next_year_counterexample:
  "column_of (\<lambda>c. bd_years_in_business (c_business_details c))
     (convert_to_json example_clock no_json founded_headers founded_rows [1]) = Inr [Some 25]
   \<and> column_of (\<lambda>c. bd_years_in_business (c_business_details c))
     (convert_to_json next_year_clock no_json founded_headers founded_rows [1]) = Inr [Some 26]"
  by (simp add: founded_years example_clock_def next_year_clock_def)

text \<open>
  C9, amended: two runs on the same table and the same row numbers, with the same current
  year, end alike: either both with the same exception, or both with a document, and then
  the two documents differ at most in the ids of records without a place id and in
  \<open>generated_at\<close>, and the runs print the same lines.
\<close>

theorem two_runs_same_year:
  assumes "rd_year (clk1 0) = rd_year (clk2 0)"
  shows "(case convert_to_json clk1 loads headers all_rows specific_rows of
            Inl e \<Rightarrow> convert_to_json clk2 loads headers all_rows specific_rows = Inl e
          | Inr (d1, ev1) \<Rightarrow>
              (\<exists>d2. convert_to_json clk2 loads headers all_rows specific_rows = Inr (d2, ev1)
                    \<and> same_document d1 d2))"
proof -
  let ?st = "\<lparr>rs_contractors = [], rs_events = [], rs_ticks = 1\<rparr>"
  have init: "same_state ?st ?st" by (simp add: same_state_def)
  show ?thesis
    using process_rows_two_clocks[OF init, where ?clk1.0 = clk1 and loads = loads
        and hm = "header_map_of headers" and all_rows = all_rows and cy = "rd_year (clk1 0)"
        and rs = specific_rows and ?clk2.0 = clk2] assms
    by (auto simp: convert_to_json_def Let_def same_state_def same_document_def
        same_records_segment_stats list_all2_lengthD split: sum.splits)
qed

theorem two_runs_same_year_witness:
  "rd_year (example_clock 0) = rd_year (second_clock 0)
   \<and> rd_timestamp (example_clock 1) \<noteq> rd_timestamp (second_clock 1)
   \<and> (\<exists>d2. convert_to_json second_clock no_json example_headers example_rows example_selection
               = Inr (d2, example_events)
            \<and> same_document example_doc d2)"
proof -
  have y: "rd_year (example_clock 0) = rd_year (second_clock 0)"
    by (simp add: example_clock_def second_clock_def)
  have "rd_timestamp (example_clock 1) \<noteq> rd_timestamp (second_clock 1)"
    by (simp add: example_clock_def second_clock_def)
  with y two_runs_same_year[where ?clk1.0 = example_clock and ?clk2.0 = second_clock
      and loads = no_json and headers = example_headers and all_rows = example_rows
      and specific_rows = example_selection, OF y]
  show ?thesis by (simp add: example_run)
qed

text \<open>
  C10. In every record of a run, \<open>web_presence.website_details.has_website\<close> equals
  \<open>segmentation.has_website\<close>, and both are true exactly when the website of the record,
  the cleaned \<open>site\<close> cell of its row, is not empty.
\<close>

theorem website_flags_agree:
  assumes "convert_to_json clk loads headers all_rows specific_rows = Inr (doc, evs)"
    and "c \<in> set (hvac_contractors doc)"
  shows "wd_has_website (wp_website_details (c_web_presence c)) = sg_has_website (c_segmentation c)
       \<and> sg_has_website (c_segmentation c) = (wp_website (c_web_presence c) \<noteq> '''')
       \<and> (\<exists>ri \<in> set specific_rows. 1 \<le> ri \<and> ri \<le> int (length all_rows)
              \<and> wp_website (c_web_presence c) =
                  get_value (header_map_of headers) (all_rows ! nat (ri - 1)) ''site'' '''')"
proof -
  from convert_origin[OF assms] obtain ri t t' where
    ri: "ri \<in> set specific_rows" "1 \<le> ri" "ri \<le> int (length all_rows)"
    and b: "build_contractor clk loads (header_map_of headers) (rd_year (clk 0)) t ri
          (all_rows ! nat (ri - 1)) = Inr (c, t')"
    by blast
  from build_website[OF b] ri show ?thesis by auto
qed

theorem website_flags_agree_witness:
  "convert_to_json example_clock no_json example_headers example_rows example_selection
     = Inr (example_doc, example_events)
   \<and> example_contractor_1 \<in> set (hvac_contractors example_doc)
   \<and> wd_has_website (wp_website_details (c_web_presence example_contractor_1))
   \<and> sg_has_website (c_segmentation example_contractor_1)
   \<and> wp_website (c_web_presence example_contractor_1) = ''http://bob.example''
   \<and> padded_rows ! 0 ! 2 = [CHR 0xA0]
   \<and> (\<exists>doc evs. convert_to_json example_clock no_json padded_headers padded_rows [1]
                   = Inr (doc, evs)
               \<and> length (hvac_contractors doc) = 1
               \<and> (\<forall>c \<in> set (hvac_contractors doc).
                     wp_website (c_web_presence c) = ''''
                     \<and> \<not> sg_has_website (c_segmentation c)
                     \<and> \<not> wd_has_website (wp_website_details (c_web_presence c))))"
proof -
  have "wp_website (c_web_presence example_contractor_1) = ''http://bob.example''"
    by (simp add: example_contractor_1_def)
  with website_flags_agree[OF example_run example_members(1)] example_run example_members(1)
  have first: "convert_to_json example_clock no_json example_headers example_rows example_selection
     = Inr (example_doc, example_events)
   \<and> example_contractor_1 \<in> set (hvac_contractors example_doc)
   \<and> wd_has_website (wp_website_details (c_web_presence example_contractor_1))
   \<and> sg_has_website (c_segmentation example_contractor_1)
   \<and> wp_website (c_web_presence example_contractor_1) = ''http://bob.example''"
    by simp
  have raw: "padded_rows ! 0 ! 2 = [CHR 0xA0]"
    by (simp add: padded_rows_def)
  obtain doc evs where
    run: "convert_to_json example_clock no_json padded_headers padded_rows [1] = Inr (doc, evs)"
    and one: "length (hvac_contractors doc) = 1"
    by (rule padded_run)
  have "wp_website (c_web_presence c) = ''''
        \<and> \<not> sg_has_website (c_segmentation c)
        \<and> \<not> wd_has_website (wp_website_details (c_web_presence c))"
    if c: "c \<in> set (hvac_contractors doc)" for c
  proof -
    from website_flags_agree[OF run c] padded_cells(5)
    show ?thesis by auto
  qed
  with run one have second: "\<exists>doc evs. convert_to_json example_clock no_json padded_headers
                   padded_rows [1] = Inr (doc, evs)
               \<and> length (hvac_contractors doc) = 1
               \<and> (\<forall>c \<in> set (hvac_contractors doc).
                     wp_website (c_web_presence c) = ''''
                     \<and> \<not> sg_has_website (c_segmentation c)
                     \<and> \<not> wd_has_website (wp_website_details (c_web_presence c)))"
    by blast
  from first raw second show ?thesis by blast
qed

end
